theory Spec2Isabelle
  imports Complex_Main "HOL-Library.AList"
begin

section \<open>JavaScript values and the primitives of the host\<close>

text \<open>
  The client is untyped JavaScript, so the values that flow through it (decoded response
  bodies, React state, arguments of \<^verbatim>\<open>localStorage.setItem\<close>) are modelled by
  one datatype of JavaScript values. A number is an IEEE double: the three special values
  are constructors, a finite double carries its exact rational value. The sign of zero is
  not tracked. An object is the list of its properties, each name once.
\<close>

datatype jsnum = NaN | PosInf | NegInf | Fin rat

datatype jsval =
    Undefined
  | Null
  | Bool bool
  | Num jsnum
  | Str string
  | Arr "jsval list"
  | Obj "(string \<times> jsval) list"

datatype js_error =
    TypeError
  | RangeError
  | FetchFailed
  | Error string

text \<open>
  The functions of the JavaScript host that the client calls and that are no code of the
  repository, and the configuration of the build, are parameters of the model: every
  theorem holds for each choice of them.
  \<^item> \<open>BACKEND_URL\<close>: \<^verbatim>\<open>process.env.REACT_APP_BACKEND_URL\<close>;
  \<^item> \<open>today\<close>: \<^verbatim>\<open>new Date().toISOString().split('T')[0]\<close>;
  \<^item> \<open>parseFloat\<close>, \<open>parseInt\<close>: the global functions, on a string argument;
  \<^item> \<open>number_to_string\<close>: \<^verbatim>\<open>ToString\<close> on a number;
  \<^item> \<open>to_number\<close>: \<^verbatim>\<open>ToNumber\<close> on a value that is not a number;
  \<^item> \<open>JSON_stringify\<close>: \<^verbatim>\<open>JSON.stringify\<close> on a value other than \<^verbatim>\<open>undefined\<close>;
  \<^item> \<open>JSON_parse\<close>: \<^verbatim>\<open>JSON.parse\<close>, \<open>None\<close> where it throws;
  \<^item> \<open>encodeURIComponent\<close>: the global function;
  \<^item> \<open>toISOString\<close>: \<^verbatim>\<open>new Date(s).toISOString()\<close>, \<open>None\<close> where it throws
    (an invalid date);
  \<^item> \<open>fl\<close>: rounding of an exact quotient or product to a double (it may overflow to an
    infinity).
\<close>

record env =
  BACKEND_URL :: string
  today :: string
  parseFloat :: "string \<Rightarrow> jsnum"
  parseInt :: "string \<Rightarrow> jsnum"
  number_to_string :: "jsnum \<Rightarrow> string"
  to_number :: "jsval \<Rightarrow> jsnum"
  JSON_stringify :: "jsval \<Rightarrow> string"
  JSON_parse :: "string \<Rightarrow> jsval option"
  encodeURIComponent :: "string \<Rightarrow> string"
  toISOString :: "string \<Rightarrow> string option"
  fl :: "rat \<Rightarrow> jsnum"

text \<open>Truthiness, as \<^verbatim>\<open>!x\<close>, \<^verbatim>\<open>x || y\<close> and \<^verbatim>\<open>if (x)\<close> test it.\<close>

fun truthy :: "jsval \<Rightarrow> bool" where
  "truthy Undefined = False"
| "truthy Null = False"
| "truthy (Bool b) = b"
| "truthy (Num n) = (n \<noteq> NaN \<and> n \<noteq> Fin 0)"
| "truthy (Str s) = (s \<noteq> [])"
| "truthy (Arr xs) = True"
| "truthy (Obj kvs) = True"

text \<open>\<^verbatim>\<open>a || b\<close>\<close>

definition js_or :: "jsval \<Rightarrow> jsval \<Rightarrow> jsval" where
  "js_or a b = (if truthy a then a else b)"

text \<open>
  Reading a property of \<^verbatim>\<open>undefined\<close> or \<^verbatim>\<open>null\<close> throws a TypeError: the model
  functions test \<open>nullish\<close> wherever the source dereferences a value. On every other value
  \<open>field\<close> is the property read \<^verbatim>\<open>v.k\<close>; the names the client reads (\<^verbatim>\<open>access_token\<close>,
  \<^verbatim>\<open>user\<close>, \<^verbatim>\<open>tenant\<close>, \<^verbatim>\<open>company\<close>, \<^verbatim>\<open>id\<close>, \<^verbatim>\<open>detail\<close>, ...) are no built-in
  properties of strings, numbers, booleans or arrays, where the read gives
  \<^verbatim>\<open>undefined\<close>.
\<close>

fun nullish :: "jsval \<Rightarrow> bool" where
  "nullish Undefined = True"
| "nullish Null = True"
| "nullish v = False"

fun field :: "jsval \<Rightarrow> string \<Rightarrow> jsval" where
  "field (Obj kvs) k = (case map_of kvs k of Some v \<Rightarrow> v | None \<Rightarrow> Undefined)"
| "field v k = Undefined"

text \<open>\<^verbatim>\<open>v?.k\<close>\<close>

definition opt_field :: "jsval \<Rightarrow> string \<Rightarrow> jsval" where
  "opt_field v k = (if nullish v then Undefined else field v k)"

text \<open>\<^verbatim>\<open>v[0]\<close>\<close>

fun index0 :: "jsval \<Rightarrow> js_error + jsval" where
  "index0 Undefined = Inl TypeError"
| "index0 Null = Inl TypeError"
| "index0 (Arr []) = Inr Undefined"
| "index0 (Arr (x # xs)) = Inr x"
| "index0 (Str []) = Inr Undefined"
| "index0 (Str (ch # s)) = Inr (Str [ch])"
| "index0 (Obj kvs) = Inr (field (Obj kvs) ''0'')"
| "index0 v = Inr Undefined"

fun join_comma :: "string list \<Rightarrow> string" where
  "join_comma [] = []"
| "join_comma [s] = s"
| "join_comma (s # t # ss) = s @ '','' @ join_comma (t # ss)"

text \<open>
  \<^verbatim>\<open>ToString\<close>, which \<^verbatim>\<open>localStorage.setItem\<close> and template literals apply to a
  value.
\<close>

fun to_string :: "env \<Rightarrow> jsval \<Rightarrow> string" where
  "to_string E Undefined = ''undefined''"
| "to_string E Null = ''null''"
| "to_string E (Bool b) = (if b then ''true'' else ''false'')"
| "to_string E (Num n) = number_to_string E n"
| "to_string E (Str s) = s"
| "to_string E (Arr xs) = join_comma (map (\<lambda>x. if nullish x then [] else to_string E x) xs)"
| "to_string E (Obj kvs) = ''[object Object]''"

text \<open>
  \<^verbatim>\<open>JSON.stringify(v)\<close> is \<^verbatim>\<open>undefined\<close> on \<^verbatim>\<open>undefined\<close>, and a string
  otherwise.
\<close>

definition json_stringify :: "env \<Rightarrow> jsval \<Rightarrow> jsval" where
  "json_stringify E v = (if v = Undefined then Undefined else Str (JSON_stringify E v))"

text \<open>\<^verbatim>\<open>const API = `${BACKEND_URL}/api`\<close>\<close>

definition API :: "env \<Rightarrow> string" where
  "API E = BACKEND_URL E @ ''/api''"

section \<open>The form state of the components\<close>

text \<open>
  The state behind the login and the registration form of \<^verbatim>\<open>Auth\<close>; every entry but the
  list of standards is the text of an input element.
\<close>

record loginData =
  email :: string
  password :: string

record signupData =
  email :: string
  password :: string
  first_name :: string
  last_name :: string
  company_name :: string
  industry :: string
  employee_count :: string
  annual_revenue :: string
  headquarters_location :: string
  compliance_standards :: "string list"

text \<open>
  The form of \<^verbatim>\<open>EmissionsTracker\<close>. The entries of \<^verbatim>\<open>activity_data\<close> are written by
  \<^verbatim>\<open>updateActivityData(field, e.target.value)\<close> only, so they are strings, one for each
  key.
\<close>

record formData =
  source_type :: string
  period_start :: string
  period_end :: string
  activity_data :: "(string \<times> string) list"
  data_quality :: string

text \<open>The form of \<^verbatim>\<open>FinancialImpact\<close>.\<close>

record newInitiative =
  initiative_name :: string
  description :: string
  implementation_cost :: string
  annual_savings :: string
  annual_co2_reduction :: string
  implementation_date :: string
  status :: string

section \<open>Requests and responses\<close>

record request =
  url :: string
  http_method :: string
  headers :: "(string \<times> string) list"
  body :: "string option"

text \<open>
  A response carries its status and the value its \<^verbatim>\<open>json()\<close> promise resolves to,
  \<open>None\<close> where that promise rejects (the body is no JSON).
\<close>

record response =
  status :: nat
  json :: "jsval option"

definition ok :: "response \<Rightarrow> bool" where
  "ok r = (200 \<le> status r \<and> status r \<le> 299)"

text \<open>What \<^verbatim>\<open>await fetch(...)\<close> gives: a rejection (network failure) or a response.\<close>

datatype fetch_outcome = NetworkError | Response response

section \<open>The client state\<close>

text \<open>
  The React state of \<^verbatim>\<open>AuthProvider\<close> (\<open>token\<close>, \<open>user\<close>, \<open>tenant\<close>), the current
  company of \<^verbatim>\<open>AppContent\<close>, and the browser's \<^verbatim>\<open>localStorage\<close>.
\<close>

record client =
  token :: jsval
  user :: jsval
  tenant :: jsval
  currentCompany :: jsval
  localStorage :: "string \<rightharpoonup> string"

definition setItem :: "string \<Rightarrow> string \<Rightarrow> client \<Rightarrow> client" where
  "setItem k v c = c\<lparr>localStorage := (localStorage c)(k \<mapsto> v)\<rparr>"

definition removeItem :: "string \<Rightarrow> client \<Rightarrow> client" where
  "removeItem k c = c\<lparr>localStorage := (localStorage c)(k := None)\<rparr>"

text \<open>The client before anything is stored (\<^verbatim>\<open>useState(null)\<close> three times).\<close>

definition initial_client :: client where
  "initial_client =
     \<lparr>token = Null, user = Null, tenant = Null, currentCompany = Null,
      localStorage = Map.empty\<rparr>"

section \<open>AuthContext.js\<close>

text \<open>\<^verbatim>\<open>login(authData)\<close>, called with a value that is not nullish.\<close>

definition login :: "env \<Rightarrow> jsval \<Rightarrow> client \<Rightarrow> client" where
  "login E authData c =
     (let c1 = c\<lparr>token := field authData ''access_token'',
                 user := field authData ''user'',
                 tenant := field authData ''tenant''\<rparr>;
          c2 = setItem ''climabill_token'' (to_string E (field authData ''access_token'')) c1;
          c3 = setItem ''climabill_user''
                 (to_string E (json_stringify E (field authData ''user''))) c2
      in setItem ''climabill_tenant''
           (to_string E (json_stringify E (field authData ''tenant''))) c3)"

definition logout :: "client \<Rightarrow> client" where
  "logout c =
     (let c1 = c\<lparr>token := Null, user := Null, tenant := Null\<rparr>;
          c2 = removeItem ''climabill_token'' c1;
          c3 = removeItem ''climabill_user'' c2;
          c4 = removeItem ''climabill_tenant'' c3
      in removeItem ''climabill_company_id'' c4)"

text \<open>
  The effect that runs on mount. \<^verbatim>\<open>getItem\<close> gives \<^verbatim>\<open>null\<close> for an absent key, and
  the empty string is falsy. A \<^verbatim>\<open>JSON.parse\<close> that throws is caught and followed by
  \<^verbatim>\<open>logout()\<close>, whose state updates come last.
\<close>

definition saved :: "client \<Rightarrow> string \<Rightarrow> string option" where
  "saved c k = (case localStorage c k of None \<Rightarrow> None
                | Some s \<Rightarrow> if s = [] then None else Some s)"

definition mount :: "env \<Rightarrow> client \<Rightarrow> client" where
  "mount E c =
     (case (saved c ''climabill_token'', saved c ''climabill_user'',
            saved c ''climabill_tenant'') of
        (Some savedToken, Some savedUser, Some savedTenant) \<Rightarrow>
          (case JSON_parse E savedUser of
             None \<Rightarrow> logout c
           | Some u \<Rightarrow>
               (case JSON_parse E savedTenant of
                  None \<Rightarrow> logout c
                | Some t \<Rightarrow> c\<lparr>token := Str savedToken, user := u, tenant := t\<rparr>))
      | _ \<Rightarrow> c)"

text \<open>
  The second argument of \<^verbatim>\<open>fetch\<close>. \<^verbatim>\<open>{...defaultHeaders, ...options.headers}\<close>
  keeps the default keys in place and lets a header of the caller replace the value of a
  default one.
\<close>

record fetch_options =
  opt_method :: "string option"
  opt_headers :: "(string \<times> string) list"
  opt_body :: "string option"

definition no_options :: fetch_options where
  "no_options = \<lparr>opt_method = None, opt_headers = [], opt_body = None\<rparr>"

fun spread :: "(string \<times> string) list \<Rightarrow> (string \<times> string) list \<Rightarrow> (string \<times> string) list" where
  "spread acc [] = acc"
| "spread acc ((k, v) # kvs) = spread (AList.update k v acc) kvs"

definition plain_request :: "string \<Rightarrow> fetch_options \<Rightarrow> request" where
  "plain_request u opts =
     \<lparr>url = u,
      http_method = (case opt_method opts of None \<Rightarrow> ''GET'' | Some m \<Rightarrow> m),
      headers = opt_headers opts,
      body = opt_body opts\<rparr>"

text \<open>
  \<^verbatim>\<open>authenticatedFetch(url, options)\<close>. The result is what the promise settles to (the
  error thrown, or the response), the requests that went to the network, and the client
  state afterwards. \<open>out\<close> is what the network answers if it is asked.
\<close>

definition authenticatedFetch ::
  "env \<Rightarrow> client \<Rightarrow> string \<Rightarrow> fetch_options \<Rightarrow> fetch_outcome
     \<Rightarrow> (js_error + response) \<times> request list \<times> client" where
  "authenticatedFetch E c u opts out =
     (if \<not> truthy (token c) then (Inl (Error ''No authentication token available''), [], c)
      else
        let defaultHeaders =
              [(''Content-Type'', ''application/json''),
               (''Authorization'', ''Bearer '' @ to_string E (token c))];
            config = plain_request u (opts\<lparr>opt_headers := spread defaultHeaders (opt_headers opts)\<rparr>)
        in case out of
             NetworkError \<Rightarrow> (Inl FetchFailed, [config], c)
           | Response r \<Rightarrow>
               if status r = 401
               then (Inl (Error ''Authentication expired''), [config], logout c)
               else (Inr r, [config], c))"

section \<open>App.js\<close>

text \<open>
  \<^verbatim>\<open>handleAuthSuccess(authData)\<close>, the \<^verbatim>\<open>onAuthSuccess\<close> that \<^verbatim>\<open>AppContent\<close>
  hands to \<^verbatim>\<open>Auth\<close>; its callers pass a value that is not nullish.
\<close>

definition handleAuthSuccess :: "env \<Rightarrow> jsval \<Rightarrow> client \<Rightarrow> client" where
  "handleAuthSuccess E authData c =
     (let c1 = login E authData c
      in if truthy (field authData ''company'')
         then setItem ''climabill_company_id''
                (to_string E (field (field authData ''company'') ''id''))
                (c1\<lparr>currentCompany := field authData ''company''\<rparr>)
         else c1)"

text \<open>\<^verbatim>\<open>v.length\<close> and \<^verbatim>\<open>x > 0\<close> (string lengths count the characters of the model).\<close>

definition js_length :: "jsval \<Rightarrow> jsval" where
  "js_length v =
     (case v of
        Arr xs \<Rightarrow> Num (Fin (of_nat (length xs)))
      | Str s \<Rightarrow> Num (Fin (of_nat (length s)))
      | _ \<Rightarrow> field v ''length'')"

definition js_number :: "env \<Rightarrow> jsval \<Rightarrow> jsnum" where
  "js_number E v =
     (case v of
        Num n \<Rightarrow> n
      | Undefined \<Rightarrow> NaN
      | Null \<Rightarrow> Fin 0
      | Bool b \<Rightarrow> Fin (if b then 1 else 0)
      | _ \<Rightarrow> to_number E v)"

definition greater_than_0 :: "env \<Rightarrow> jsval \<Rightarrow> bool" where
  "greater_than_0 E v =
     (case js_number E v of PosInf \<Rightarrow> True | Fin q \<Rightarrow> 0 < q | _ \<Rightarrow> False)"

text \<open>
  \<^verbatim>\<open>fetchUserCompanies()\<close>: the requests it sends and the client state afterwards.
  Everything thrown inside is caught and logged.
\<close>

definition fetchUserCompanies :: "env \<Rightarrow> client \<Rightarrow> fetch_outcome \<Rightarrow> request list \<times> client" where
  "fetchUserCompanies E c out =
     (case authenticatedFetch E c (API E @ ''/companies'') no_options out of
        (Inl err, reqs, c1) \<Rightarrow> (reqs, c1)
      | (Inr r, reqs, c1) \<Rightarrow>
          if ok r then
            (case json r of
               None \<Rightarrow> (reqs, c1)
             | Some companies \<Rightarrow>
                 if nullish companies then (reqs, c1)
                 else if greater_than_0 E (js_length companies) then
                   (case index0 companies of
                      Inl err \<Rightarrow> (reqs, c1)
                    | Inr first \<Rightarrow>
                        let c2 = c1\<lparr>currentCompany := first\<rparr>
                        in if nullish first then (reqs, c2)
                           else (reqs, setItem ''climabill_company_id''
                                         (to_string E (field first ''id'')) c2))
                 else (reqs, c1))
          else (reqs, c1))"

section \<open>Auth.js\<close>

text \<open>
  What a submit handler of \<^verbatim>\<open>Auth\<close> leaves behind: the requests sent, the \<^verbatim>\<open>error\<close>
  state of the form, the argument of \<^verbatim>\<open>onAuthSuccess\<close> if it was called, and the
  client state.
\<close>

record auth_result =
  requests :: "request list"
  error :: jsval
  authSuccess :: "jsval option"
  after :: client

definition network_error :: "request list \<Rightarrow> client \<Rightarrow> auth_result" where
  "network_error reqs c =
     \<lparr>requests = reqs, error = Str ''Network error. Please try again.'',
      authSuccess = None, after = c\<rparr>"

definition store_auth_data :: "env \<Rightarrow> jsval \<Rightarrow> client \<Rightarrow> client" where
  "store_auth_data E result c =
     (let c1 = setItem ''climabill_token'' (to_string E (field result ''access_token'')) c;
          c2 = setItem ''climabill_user''
                 (to_string E (json_stringify E (field result ''user''))) c1
      in setItem ''climabill_tenant''
           (to_string E (json_stringify E (field result ''tenant''))) c2)"

definition login_request :: "env \<Rightarrow> loginData \<Rightarrow> request" where
  "login_request E ld =
     \<lparr>url = API E @ ''/auth/login?email='' @ encodeURIComponent E (loginData.email ld)
              @ ''&password='' @ encodeURIComponent E (loginData.password ld),
      http_method = ''POST'',
      headers = [(''Content-Type'', ''application/json'')],
      body = None\<rparr>"

text \<open>
  \<^verbatim>\<open>handleLogin\<close>. A rejected \<^verbatim>\<open>fetch\<close>, a body that is no JSON and a property read
  on a nullish body all end in the \<^verbatim>\<open>catch\<close> block.
\<close>

definition handleLogin :: "env \<Rightarrow> loginData \<Rightarrow> client \<Rightarrow> fetch_outcome \<Rightarrow> auth_result" where
  "handleLogin E ld c out =
     (let req = login_request E ld in
      case out of
        NetworkError \<Rightarrow> network_error [req] c
      | Response r \<Rightarrow>
          if ok r then
            (case json r of
               None \<Rightarrow> network_error [req] c
             | Some result \<Rightarrow>
                 if nullish result then network_error [req] c
                 else
                   \<lparr>requests = [req], error = Str [], authSuccess = Some result,
                    after = handleAuthSuccess E result (store_auth_data E result c)\<rparr>)
          else
            (case json r of
               None \<Rightarrow> network_error [req] c
             | Some errorData \<Rightarrow>
                 if nullish errorData then network_error [req] c
                 else
                   \<lparr>requests = [req],
                    error = js_or (field errorData ''detail'') (Str ''Login failed''),
                    authSuccess = None, after = c\<rparr>))"

text \<open>
  The body of the registration request:
  \<^verbatim>\<open>{...signupData, employee_count: parseInt(...), annual_revenue: parseFloat(...)}\<close>.
\<close>

definition signupData_object :: "signupData \<Rightarrow> (string \<times> jsval) list" where
  "signupData_object sd =
     [(''email'', Str (signupData.email sd)),
      (''password'', Str (signupData.password sd)),
      (''first_name'', Str (first_name sd)),
      (''last_name'', Str (last_name sd)),
      (''company_name'', Str (company_name sd)),
      (''industry'', Str (industry sd)),
      (''employee_count'', Str (employee_count sd)),
      (''annual_revenue'', Str (annual_revenue sd)),
      (''headquarters_location'', Str (headquarters_location sd)),
      (''compliance_standards'', Arr (map Str (compliance_standards sd)))]"

definition signup_body :: "env \<Rightarrow> signupData \<Rightarrow> jsval" where
  "signup_body E sd =
     Obj (AList.update ''annual_revenue'' (Num (parseFloat E (annual_revenue sd)))
           (AList.update ''employee_count'' (Num (parseInt E (employee_count sd)))
             (signupData_object sd)))"

definition signup_request :: "env \<Rightarrow> signupData \<Rightarrow> request" where
  "signup_request E sd =
     \<lparr>url = API E @ ''/auth/register'',
      http_method = ''POST'',
      headers = [(''Content-Type'', ''application/json'')],
      body = Some (JSON_stringify E (signup_body E sd))\<rparr>"

text \<open>
  \<^verbatim>\<open>handleSignup\<close>. \<^verbatim>\<open>result.company.id\<close> is read after the first three entries are
  stored: a response without a company throws there, into the \<^verbatim>\<open>catch\<close> block.
\<close>

definition handleSignup :: "env \<Rightarrow> signupData \<Rightarrow> client \<Rightarrow> fetch_outcome \<Rightarrow> auth_result" where
  "handleSignup E sd c out =
     (let req = signup_request E sd in
      case out of
        NetworkError \<Rightarrow> network_error [req] c
      | Response r \<Rightarrow>
          if ok r then
            (case json r of
               None \<Rightarrow> network_error [req] c
             | Some result \<Rightarrow>
                 if nullish result then network_error [req] c
                 else
                   let c3 = store_auth_data E result c in
                   if nullish (field result ''company'') then network_error [req] c3
                   else
                     \<lparr>requests = [req], error = Str [], authSuccess = Some result,
                      after = handleAuthSuccess E result
                                (setItem ''climabill_company_id''
                                   (to_string E (field (field result ''company'') ''id'')) c3)\<rparr>)
          else
            (case json r of
               None \<Rightarrow> network_error [req] c
             | Some errorData \<Rightarrow>
                 if nullish errorData then network_error [req] c
                 else
                   \<lparr>requests = [req],
                    error = js_or (field errorData ''detail'') (Str ''Registration failed''),
                    authSuccess = None, after = c\<rparr>))"

section \<open>Dashboard.js\<close>

text \<open>
  The components receive \<^verbatim>\<open>company\<close> as a property; \<^verbatim>\<open>AppContent\<close> renders them
  only while its current company is truthy, so \<^verbatim>\<open>company.id\<close> is a property read on
  a value that is not nullish.

  \<^verbatim>\<open>fetchDashboardData()\<close>: the requests sent, the dashboard data if they were set, and
  the error message.
\<close>

definition fetchDashboardData ::
  "env \<Rightarrow> jsval \<Rightarrow> fetch_outcome \<Rightarrow> request list \<times> jsval option \<times> string" where
  "fetchDashboardData E company out =
     (let req = plain_request
                  (API E @ ''/companies/'' @ to_string E (field company ''id'') @ ''/dashboard'')
                  no_options
      in case out of
           NetworkError \<Rightarrow> ([req], None, ''Network error. Please try again.'')
         | Response r \<Rightarrow>
             if ok r then
               (case json r of
                  None \<Rightarrow> ([req], None, ''Network error. Please try again.'')
                | Some data \<Rightarrow> ([req], Some data, []))
             else ([req], None, ''Failed to load dashboard data''))"

section \<open>EmissionsTracker.js\<close>

definition updateActivityData :: "string \<Rightarrow> string \<Rightarrow> formData \<Rightarrow> formData" where
  "updateActivityData fld v fd = fd\<lparr>activity_data := AList.update fld v (activity_data fd)\<rparr>"

definition initial_formData :: "env \<Rightarrow> formData" where
  "initial_formData E =
     \<lparr>source_type = ''electricity'', period_start = today E, period_end = today E,
      activity_data = [], data_quality = ''estimated''\<rparr>"

text \<open>
  \<^verbatim>\<open>p(activity_data.k || d)\<close> for \<open>p\<close> one of \<^verbatim>\<open>parseFloat\<close>, \<^verbatim>\<open>parseInt\<close> and the
  default \<open>d\<close> one of the literals 0 and 1: an absent or empty entry gives the default,
  which both functions return as it is.
\<close>

definition parse_or :: "(string \<Rightarrow> jsnum) \<Rightarrow> (string \<times> string) list \<Rightarrow> string \<Rightarrow> rat \<Rightarrow> jsnum" where
  "parse_or p ad k d =
     (case map_of ad k of None \<Rightarrow> Fin d | Some s \<Rightarrow> if s = [] then Fin d else p s)"

text \<open>\<^verbatim>\<open>activity_data.k || d\<close> for a string literal \<open>d\<close>\<close>

definition string_or :: "(string \<times> string) list \<Rightarrow> string \<Rightarrow> string \<Rightarrow> string" where
  "string_or ad k d =
     (case map_of ad k of None \<Rightarrow> d | Some s \<Rightarrow> if s = [] then d else s)"

text \<open>The first \<^verbatim>\<open>switch\<close> of \<^verbatim>\<open>handleCalculateEmissions\<close>.\<close>

definition calculationData :: "env \<Rightarrow> formData \<Rightarrow> jsval" where
  "calculationData E fd =
     (let ad = activity_data fd in
      if source_type fd = ''electricity'' then
        Obj [(''kwh_consumed'', Num (parse_or (parseFloat E) ad ''kwh_consumed'' 0)),
             (''region'', Str (string_or ad ''region'' ''us_average'')),
             (''renewable_percentage'', Num (parse_or (parseFloat E) ad ''renewable_percentage'' 0))]
      else if source_type fd = ''fuel'' then
        Obj [(''fuel_type'', Str (string_or ad ''fuel_type'' ''gasoline'')),
             (''quantity'', Num (parse_or (parseFloat E) ad ''quantity'' 0)),
             (''unit'', Str (string_or ad ''unit'' ''liters''))]
      else if source_type fd = ''travel'' then
        Obj [(''trips'', Arr [Obj
              [(''transport_mode'', Str (string_or ad ''transport_mode'' ''car_petrol'')),
               (''distance_km'', Num (parse_or (parseFloat E) ad ''distance_km'' 0)),
               (''passengers'', Num (parse_or (parseInt E) ad ''passengers'' 1))]])]
      else
        Obj [(''kwh_consumed'', Num (parse_or (parseFloat E) ad ''energy_consumed'' 0)),
             (''region'', Str ''us_average'')])"

text \<open>The second \<^verbatim>\<open>switch\<close>: the endpoint and the body of the calculation request.\<close>

definition calculationEndpoint :: "formData \<Rightarrow> string" where
  "calculationEndpoint fd =
     (if source_type fd = ''electricity'' then ''/calculate/electricity''
      else if source_type fd = ''fuel'' then ''/calculate/fuel''
      else if source_type fd = ''travel'' then ''/calculate/travel''
      else ''/calculate/electricity'')"

definition requestBody :: "env \<Rightarrow> formData \<Rightarrow> jsval" where
  "requestBody E fd =
     (if source_type fd = ''electricity'' then calculationData E fd
      else if source_type fd = ''fuel'' then calculationData E fd
      else if source_type fd = ''travel'' then field (calculationData E fd) ''trips''
      else calculationData E fd)"

definition calculation_request :: "env \<Rightarrow> formData \<Rightarrow> request" where
  "calculation_request E fd =
     \<lparr>url = API E @ calculationEndpoint fd,
      http_method = ''POST'',
      headers = [(''Content-Type'', ''application/json'')],
      body = Some (JSON_stringify E (requestBody E fd))\<rparr>"

text \<open>\<^verbatim>\<open>emissionSources[0]?.id || 'default-source-id'\<close>\<close>

definition sourceId :: "jsval \<Rightarrow> js_error + jsval" where
  "sourceId emissionSources =
     (case index0 emissionSources of
        Inl err \<Rightarrow> Inl err
      | Inr first \<Rightarrow> Inr (js_or (opt_field first ''id'') (Str ''default-source-id'')))"

text \<open>
  The record that is posted. Its members are evaluated in the order of the source; an
  invalid date makes \<^verbatim>\<open>toISOString\<close> throw a RangeError, a nullish calculation result
  makes the property read throw a TypeError.
\<close>

definition recordData :: "env \<Rightarrow> jsval \<Rightarrow> formData \<Rightarrow> jsval \<Rightarrow> js_error + jsval" where
  "recordData E emissionSources fd calculationResult =
     (case sourceId emissionSources of
        Inl err \<Rightarrow> Inl err
      | Inr sid \<Rightarrow>
          (case toISOString E (period_start fd) of
             None \<Rightarrow> Inl RangeError
           | Some ps \<Rightarrow>
               (case toISOString E (period_end fd) of
                  None \<Rightarrow> Inl RangeError
                | Some pe \<Rightarrow>
                    if nullish calculationResult then Inl TypeError
                    else Inr (Obj
                      [(''source_id'', sid),
                       (''period_start'', Str ps),
                       (''period_end'', Str pe),
                       (''co2_equivalent_kg'', field calculationResult ''co2_equivalent_kg''),
                       (''activity_data'', Obj (map (\<lambda>(k, v). (k, Str v)) (activity_data fd))),
                       (''emission_factor'',
                          js_or (opt_field (field calculationResult ''calculation_details'')
                                   ''emission_factor'')
                                (Num (Fin 0))),
                       (''data_quality'', Str (data_quality fd))]))))"

definition add_request :: "env \<Rightarrow> jsval \<Rightarrow> jsval \<Rightarrow> request" where
  "add_request E company rd =
     \<lparr>url = API E @ ''/companies/'' @ to_string E (field company ''id'') @ ''/emissions'',
      http_method = ''POST'',
      headers = [(''Content-Type'', ''application/json'')],
      body = Some (JSON_stringify E rd)\<rparr>"

definition summary_request :: "env \<Rightarrow> jsval \<Rightarrow> request" where
  "summary_request E company =
     plain_request
       (API E @ ''/companies/'' @ to_string E (field company ''id'') @ ''/emissions/summary'')
       no_options"

text \<open>
  \<^verbatim>\<open>fetchEmissionSources()\<close>: the request sent and the list of sources afterwards.
\<close>

definition fetchEmissionSources ::
  "env \<Rightarrow> jsval \<Rightarrow> jsval \<Rightarrow> fetch_outcome \<Rightarrow> request list \<times> jsval" where
  "fetchEmissionSources E company emissionSources out =
     (let req = plain_request
                  (API E @ ''/companies/'' @ to_string E (field company ''id'')
                     @ ''/emissions/sources/top?limit=10'')
                  no_options
      in case out of
           NetworkError \<Rightarrow> ([req], emissionSources)
         | Response r \<Rightarrow>
             if ok r then
               (case json r of
                  None \<Rightarrow> ([req], emissionSources)
                | Some sources \<Rightarrow> ([req], sources))
             else ([req], emissionSources))"

text \<open>
  \<^verbatim>\<open>handleCalculateEmissions()\<close>: the requests sent, whether the success message was
  shown, and the form afterwards. \<open>out1\<close> answers the calculation request and \<open>out2\<close>
  the request that adds the record. The success message calls \<^verbatim>\<open>toFixed\<close> on the
  computed amount, which throws unless that is a number; after it the form is reset and
  the summary is fetched again.
\<close>

definition handleCalculateEmissions ::
  "env \<Rightarrow> jsval \<Rightarrow> jsval \<Rightarrow> formData \<Rightarrow> fetch_outcome \<Rightarrow> fetch_outcome
     \<Rightarrow> request list \<times> bool \<times> formData" where
  "handleCalculateEmissions E company emissionSources fd out1 out2 =
     (let calc = calculation_request E fd in
      case out1 of
        NetworkError \<Rightarrow> ([calc], False, fd)
      | Response r1 \<Rightarrow>
          if \<not> ok r1 then ([calc], False, fd)
          else
            (case json r1 of
               None \<Rightarrow> ([calc], False, fd)
             | Some calculationResult \<Rightarrow>
                 (case recordData E emissionSources fd calculationResult of
                    Inl err \<Rightarrow> ([calc], False, fd)
                  | Inr rd \<Rightarrow>
                      let add = add_request E company rd in
                      (case out2 of
                         NetworkError \<Rightarrow> ([calc, add], False, fd)
                       | Response r2 \<Rightarrow>
                           if ok r2 then
                             (case field calculationResult ''co2_equivalent_kg'' of
                                Num n \<Rightarrow>
                                  ([calc, add, summary_request E company], True,
                                   initial_formData E)
                              | _ \<Rightarrow> ([calc, add], False, fd))
                           else ([calc, add], False, fd)))))"

section \<open>FinancialImpact.js\<close>

text \<open>
  Division and multiplication of doubles. A finite result is the rounding \<open>fl\<close> of the
  exact one; a division by zero gives an infinity, or \<^verbatim>\<open>NaN\<close> for 0/0. As the sign of
  zero is not tracked, the sign of an infinity that arises from a zero may differ from
  JavaScript's; whether a result is finite does not depend on it.
\<close>

fun js_div :: "env \<Rightarrow> jsnum \<Rightarrow> jsnum \<Rightarrow> jsnum" where
  "js_div E NaN y = NaN"
| "js_div E x NaN = NaN"
| "js_div E (Fin a) (Fin b) =
     (if b = 0 then (if a = 0 then NaN else if 0 < a then PosInf else NegInf)
      else fl E (a / b))"
| "js_div E (Fin a) PosInf = Fin 0"
| "js_div E (Fin a) NegInf = Fin 0"
| "js_div E PosInf (Fin b) = (if 0 \<le> b then PosInf else NegInf)"
| "js_div E NegInf (Fin b) = (if 0 \<le> b then NegInf else PosInf)"
| "js_div E x y = NaN"

fun js_mul :: "env \<Rightarrow> jsnum \<Rightarrow> jsnum \<Rightarrow> jsnum" where
  "js_mul E NaN y = NaN"
| "js_mul E x NaN = NaN"
| "js_mul E (Fin a) (Fin b) = fl E (a * b)"
| "js_mul E (Fin a) PosInf = (if a = 0 then NaN else if 0 < a then PosInf else NegInf)"
| "js_mul E (Fin a) NegInf = (if a = 0 then NaN else if 0 < a then NegInf else PosInf)"
| "js_mul E PosInf (Fin b) = (if b = 0 then NaN else if 0 < b then PosInf else NegInf)"
| "js_mul E NegInf (Fin b) = (if b = 0 then NaN else if 0 < b then NegInf else PosInf)"
| "js_mul E PosInf PosInf = PosInf"
| "js_mul E NegInf NegInf = PosInf"
| "js_mul E x y = NegInf"

text \<open>\<^verbatim>\<open>Number.isFinite\<close>\<close>

fun is_finite :: "jsnum \<Rightarrow> bool" where
  "is_finite (Fin q) = True"
| "is_finite n = False"

definition initial_newInitiative :: "env \<Rightarrow> newInitiative" where
  "initial_newInitiative E =
     \<lparr>initiative_name = [], description = [], implementation_cost = [],
      annual_savings = [], annual_co2_reduction = [], implementation_date = today E,
      status = ''planned''\<rparr>"

text \<open>
  \<^verbatim>\<open>(parseFloat(annual_savings) / parseFloat(implementation_cost)) * 100\<close>
\<close>

definition roi_percentage :: "env \<Rightarrow> newInitiative \<Rightarrow> jsnum" where
  "roi_percentage E ni =
     js_mul E (js_div E (parseFloat E (annual_savings ni))
                         (parseFloat E (implementation_cost ni)))
              (Fin 100)"

text \<open>
  The object handed to \<^verbatim>\<open>JSON.stringify\<close>; its last but one member throws a RangeError
  on an invalid date, before any request is sent.
\<close>

definition initiative_body :: "env \<Rightarrow> jsval \<Rightarrow> newInitiative \<Rightarrow> js_error + jsval" where
  "initiative_body E company ni =
     (case toISOString E (implementation_date ni) of
        None \<Rightarrow> Inl RangeError
      | Some d \<Rightarrow> Inr (Obj
          [(''company_id'', field company ''id''),
           (''initiative_name'', Str (initiative_name ni)),
           (''description'', Str (description ni)),
           (''implementation_cost'', Num (parseFloat E (implementation_cost ni))),
           (''annual_savings'', Num (parseFloat E (annual_savings ni))),
           (''annual_co2_reduction'', Num (parseFloat E (annual_co2_reduction ni))),
           (''roi_percentage'', Num (roi_percentage E ni)),
           (''implementation_date'', Str d),
           (''status'', Str (newInitiative.status ni))]))"

definition initiatives_url :: "env \<Rightarrow> jsval \<Rightarrow> string" where
  "initiatives_url E company =
     API E @ ''/companies/'' @ to_string E (field company ''id'') @ ''/initiatives''"

definition financial_impact_url :: "env \<Rightarrow> jsval \<Rightarrow> string" where
  "financial_impact_url E company =
     API E @ ''/companies/'' @ to_string E (field company ''id'') @ ''/financial-impact''"

text \<open>
  \<^verbatim>\<open>handleAddInitiative\<close>: the requests sent, the alert shown if any, and the form
  afterwards. On success the form is reset and the two lists are fetched again.
\<close>

definition handleAddInitiative ::
  "env \<Rightarrow> jsval \<Rightarrow> newInitiative \<Rightarrow> fetch_outcome
     \<Rightarrow> request list \<times> string option \<times> newInitiative" where
  "handleAddInitiative E company ni out =
     (case initiative_body E company ni of
        Inl err \<Rightarrow> ([], Some ''Error adding initiative'', ni)
      | Inr b \<Rightarrow>
          let req = \<lparr>url = initiatives_url E company, http_method = ''POST'',
                     headers = [(''Content-Type'', ''application/json'')],
                     body = Some (JSON_stringify E b)\<rparr>
          in case out of
               NetworkError \<Rightarrow> ([req], Some ''Error adding initiative'', ni)
             | Response r \<Rightarrow>
                 if ok r then
                   ([req, plain_request (initiatives_url E company) no_options,
                     plain_request (financial_impact_url E company) no_options],
                    None, initial_newInitiative E)
                 else ([req], Some ''Failed to add initiative'', ni))"

section \<open>Navbar.js and the earlier App.js\<close>

text \<open>
  \<^verbatim>\<open>handleLogout\<close> of the navigation bar calls \<^verbatim>\<open>logout()\<close>. The earlier navigation
  bar and the earlier \<^verbatim>\<open>App\<close> (before authentication was added) touch one entry of the
  storage, the company id.
\<close>

definition handleLogout :: "client \<Rightarrow> client" where
  "handleLogout c = logout c"

definition handleNewCompany :: "client \<Rightarrow> client" where
  "handleNewCompany c = (removeItem ''climabill_company_id'' c)\<lparr>currentCompany := Null\<rparr>"

definition fetchCompany :: "env \<Rightarrow> string \<Rightarrow> client \<Rightarrow> fetch_outcome \<Rightarrow> request list \<times> client" where
  "fetchCompany E companyId c out =
     (let req = plain_request (API E @ ''/companies/'' @ companyId) no_options in
      case out of
        NetworkError \<Rightarrow> ([req], removeItem ''climabill_company_id'' c)
      | Response r \<Rightarrow>
          if ok r then
            (case json r of
               None \<Rightarrow> ([req], removeItem ''climabill_company_id'' c)
             | Some company \<Rightarrow> ([req], c\<lparr>currentCompany := company\<rparr>))
          else ([req], removeItem ''climabill_company_id'' c))"

definition load_saved_company :: "env \<Rightarrow> client \<Rightarrow> fetch_outcome \<Rightarrow> request list \<times> client" where
  "load_saved_company E c out =
     (case saved c ''climabill_company_id'' of
        None \<Rightarrow> ([], c)
      | Some savedCompanyId \<Rightarrow> fetchCompany E savedCompanyId c out)"

definition handleCompanyCreated :: "env \<Rightarrow> jsval \<Rightarrow> client \<Rightarrow> client" where
  "handleCompanyCreated E company c =
     (let c1 = c\<lparr>currentCompany := company\<rparr>
      in if nullish company then c1
         else setItem ''climabill_company_id'' (to_string E (field company ''id'')) c1)"

section \<open>The client as a transition system\<close>

text \<open>
  Every handler of the client that reads or writes \<^verbatim>\<open>localStorage\<close> or the state of
  \<^verbatim>\<open>AuthProvider\<close> is an event; an event carries what the user entered and what the
  network answered. The other handlers of the components (dashboard, emissions,
  initiatives, marketplace, suppliers, chat) touch neither.
\<close>

datatype event =
    Mount
  | HandleLogout
  | HandleLogin loginData fetch_outcome
  | HandleSignup signupData fetch_outcome
  | FetchUserCompanies fetch_outcome
  | HandleNewCompany
  | LoadSavedCompany fetch_outcome
  | HandleCompanyCreated jsval

fun step :: "env \<Rightarrow> client \<Rightarrow> event \<Rightarrow> client" where
  "step E c Mount = mount E c"
| "step E c HandleLogout = handleLogout c"
| "step E c (HandleLogin ld out) = after (handleLogin E ld c out)"
| "step E c (HandleSignup sd out) = after (handleSignup E sd c out)"
| "step E c (FetchUserCompanies out) = snd (fetchUserCompanies E c out)"
| "step E c HandleNewCompany = handleNewCompany c"
| "step E c (LoadSavedCompany out) = snd (load_saved_company E c out)"
| "step E c (HandleCompanyCreated company) = handleCompanyCreated E company c"

fun run :: "env \<Rightarrow> client \<Rightarrow> event list \<Rightarrow> client" where
  "run E c [] = c"
| "run E c (e # es) = run E (step E c e) es"

text \<open>
  The three entries of the storage that hold the session, and the events of the
  lifecycle: a login or a registration answered with an OK status, a logout, a 401 answer
  to \<^verbatim>\<open>authenticatedFetch\<close>, and a start on saved data that does not parse.
\<close>

definition session_keys :: "string list" where
  "session_keys = [''climabill_token'', ''climabill_user'', ''climabill_tenant'']"

fun login_or_registration_success :: "event \<Rightarrow> bool" where
  "login_or_registration_success (HandleLogin ld (Response r)) = ok r"
| "login_or_registration_success (HandleSignup sd (Response r)) = ok r"
| "login_or_registration_success e = False"

fun logout_or_401 :: "event \<Rightarrow> bool" where
  "logout_or_401 HandleLogout = True"
| "logout_or_401 (FetchUserCompanies (Response r)) = (status r = 401)"
| "logout_or_401 e = False"

definition unreadable_saved_session :: "env \<Rightarrow> client \<Rightarrow> bool" where
  "unreadable_saved_session E c =
     (case (saved c ''climabill_token'', saved c ''climabill_user'',
            saved c ''climabill_tenant'') of
        (Some savedToken, Some savedUser, Some savedTenant) \<Rightarrow>
          JSON_parse E savedUser = None \<or> JSON_parse E savedTenant = None
      | _ \<Rightarrow> False)"

text \<open>The session is cleared: nothing stored, nothing in memory.\<close>

definition session_cleared :: "client \<Rightarrow> bool" where
  "session_cleared c =
     (token c = Null \<and> user c = Null \<and> tenant c = Null
      \<and> localStorage c ''climabill_token'' = None
      \<and> localStorage c ''climabill_user'' = None
      \<and> localStorage c ''climabill_tenant'' = None
      \<and> localStorage c ''climabill_company_id'' = None)"

section \<open>A sample host\<close>

text \<open>
  One choice of the host functions, to run the model on concrete inputs. On the inputs
  used below it agrees with JavaScript: \<open>parseFloat\<close> and \<open>parseInt\<close> on strings of
  decimal digits (and \<^verbatim>\<open>NaN\<close> on the empty string), \<open>JSON.stringify\<close> on values built
  from objects, arrays, strings without characters to escape, booleans, \<^verbatim>\<open>null\<close> and
  integers (of another number it writes the integer part), \<open>JSON.parse\<close> on the texts
  it lists and on \<^verbatim>\<open>undefined\<close>, which is no JSON, \<open>encodeURIComponent\<close> on strings
  whose only reserved character is the at sign, \<open>toISOString\<close> on a date of the form
  YYYY-MM-DD and on the empty string. No rounding is needed for the numbers used.
\<close>

fun digit_of :: "char \<Rightarrow> nat option" where
  "digit_of ch =
     (if ch = CHR ''0'' then Some 0 else if ch = CHR ''1'' then Some 1
      else if ch = CHR ''2'' then Some 2 else if ch = CHR ''3'' then Some 3
      else if ch = CHR ''4'' then Some 4 else if ch = CHR ''5'' then Some 5
      else if ch = CHR ''6'' then Some 6 else if ch = CHR ''7'' then Some 7
      else if ch = CHR ''8'' then Some 8 else if ch = CHR ''9'' then Some 9
      else None)"

fun decimal :: "string \<Rightarrow> nat \<Rightarrow> nat option" where
  "decimal [] acc = Some acc"
| "decimal (ch # cs) acc =
     (case digit_of ch of None \<Rightarrow> None | Some d \<Rightarrow> decimal cs (10 * acc + d))"

definition sample_parse :: "string \<Rightarrow> jsnum" where
  "sample_parse s =
     (if s = [] then NaN
      else case decimal s 0 of None \<Rightarrow> NaN | Some n \<Rightarrow> Fin (of_nat n))"

definition quoted :: "string \<Rightarrow> string" where
  "quoted s = CHR 0x22 # s @ [CHR 0x22]"

fun show_nat :: "nat \<Rightarrow> string" where
  "show_nat n =
     (if n < 10 then [''0123456789'' ! n]
      else show_nat (n div 10) @ [''0123456789'' ! (n mod 10)])"

declare show_nat.simps [simp del]

definition sample_number_to_string :: "jsnum \<Rightarrow> string" where
  "sample_number_to_string n =
     (case n of
        NaN \<Rightarrow> ''NaN''
      | PosInf \<Rightarrow> ''Infinity''
      | NegInf \<Rightarrow> ''-Infinity''
      | Fin q \<Rightarrow> (if q < 0 then ''-'' else []) @ show_nat (nat \<lfloor>\<bar>q\<bar>\<rfloor>))"

fun sample_stringify :: "jsval \<Rightarrow> string"
  and sample_elements :: "jsval list \<Rightarrow> string list"
  and sample_members :: "(string \<times> jsval) list \<Rightarrow> string list" where
  "sample_stringify Undefined = ''null''"
| "sample_stringify Null = ''null''"
| "sample_stringify (Bool b) = (if b then ''true'' else ''false'')"
| "sample_stringify (Num n) = (if is_finite n then sample_number_to_string n else ''null'')"
| "sample_stringify (Str s) = quoted s"
| "sample_stringify (Arr xs) = ''['' @ join_comma (sample_elements xs) @ '']''"
| "sample_stringify (Obj kvs) = ''{'' @ join_comma (sample_members kvs) @ ''}''"
| "sample_elements [] = []"
| "sample_elements (x # xs) = sample_stringify x # sample_elements xs"
| "sample_members [] = []"
| "sample_members ((k, v) # kvs) =
     (if v = Undefined then sample_members kvs
      else (quoted k @ '':'' @ sample_stringify v) # sample_members kvs)"

definition sample_json_parse :: "string \<Rightarrow> jsval option" where
  "sample_json_parse s =
     (if s = ''{}'' then Some (Obj [])
      else if s = ''[]'' then Some (Arr [])
      else if s = ''null'' then Some Null
      else if s = ''true'' then Some (Bool True)
      else if s = ''false'' then Some (Bool False)
      else None)"

definition sample_encode :: "string \<Rightarrow> string" where
  "sample_encode s = concat (map (\<lambda>ch. if ch = CHR ''@'' then ''%40'' else [ch]) s)"

definition sample_env :: env where
  "sample_env =
     \<lparr>BACKEND_URL = ''https://climabill.example'',
      today = ''2025-01-15'',
      parseFloat = sample_parse,
      parseInt = sample_parse,
      number_to_string = sample_number_to_string,
      to_number = (\<lambda>v. NaN),
      JSON_stringify = sample_stringify,
      JSON_parse = sample_json_parse,
      encodeURIComponent = sample_encode,
      toISOString = (\<lambda>s. if s = [] then None else Some (s @ ''T00:00:00.000Z'')),
      fl = Fin\<rparr>"

section \<open>The request authorizer of the server\<close>

text \<open>
  Modelled from the spec: the token verifier, the request authorizer and the domain
  services run in the server (\<^verbatim>\<open>backend/server.py\<close>), which is not among the sources;
  only the client that calls it is. The definitions of this section follow sections 4.1
  and 4.2 of the specification, step by step. The endpoints for login and registration,
  which the specification exempts, touch no domain record and are left out.
\<close>

type_synonym tenant_id = string
type_synonym user_id = string

text \<open>
  Modelled from the spec: the session credential, "a self-contained signed structure
  carrying {user id, tenant id, expiry}". The signing function, keyed by the secret of
  the server, is a parameter.
\<close>

record credential =
  cred_user :: user_id
  cred_tenant :: tenant_id
  cred_expiry :: nat
  cred_signature :: nat

record identity =
  user_id :: user_id
  tenant_id :: tenant_id

type_synonym signer = "user_id \<times> tenant_id \<times> nat \<Rightarrow> nat"

text \<open>Modelled from the spec: \<^verbatim>\<open>issue(user, tenant)\<close>, valid for a fixed duration.\<close>

definition issue :: "signer \<Rightarrow> nat \<Rightarrow> nat \<Rightarrow> user_id \<Rightarrow> tenant_id \<Rightarrow> credential" where
  "issue sign duration now u t =
     \<lparr>cred_user = u, cred_tenant = t, cred_expiry = now + duration,
      cred_signature = sign (u, t, now + duration)\<rparr>"

text \<open>
  Modelled from the spec: \<^verbatim>\<open>verify(token)\<close> fails, uniformly, when the signature does
  not match or the current time exceeds the expiry.
\<close>

definition verify :: "signer \<Rightarrow> nat \<Rightarrow> credential \<Rightarrow> identity option" where
  "verify sign now tok =
     (if cred_signature tok = sign (cred_user tok, cred_tenant tok, cred_expiry tok)
         \<and> now \<le> cred_expiry tok
      then Some \<lparr>user_id = cred_user tok, tenant_id = cred_tenant tok\<rparr>
      else None)"

datatype auth_failure = Unauthenticated | Forbidden | NotFound

text \<open>
  Modelled from the spec: the two policies for a path identifier of another tenant,
  telling Forbidden from NotFound, or collapsing both to NotFound.
\<close>

datatype policy = Distinguish | Collapse

text \<open>
  Modelled from the spec: a domain record, "{id, tenant id, ...domain fields}", and what
  a request asks of a domain service: to list records, or to store one (whose tenant id,
  as the client supplied it in the body, is not to be trusted).
\<close>

record domain_record =
  record_id :: string
  record_tenant :: tenant_id
  domain_fields :: string

datatype operation = List_records | Store domain_record

record api_request =
  bearer :: "credential option"
  path_company :: "tenant_id option"
  operation :: operation

text \<open>
  Modelled from the spec: steps 1 to 4 of the contract of the request authorizer.
  \<open>tenants\<close> are the identifiers in the tenant store.
\<close>

definition authorize ::
  "signer \<Rightarrow> nat \<Rightarrow> policy \<Rightarrow> tenant_id list \<Rightarrow> api_request \<Rightarrow> auth_failure + identity" where
  "authorize sign now pol tenants req =
     (case bearer req of
        None \<Rightarrow> Inl Unauthenticated
      | Some tok \<Rightarrow>
          (case verify sign now tok of
             None \<Rightarrow> Inl Unauthenticated
           | Some ctx \<Rightarrow>
               (case path_company req of
                  None \<Rightarrow> Inr ctx
                | Some a \<Rightarrow>
                    if a = tenant_id ctx then Inr ctx
                    else if pol = Collapse \<or> a \<notin> set tenants then Inl NotFound
                    else Inl Forbidden)))"

text \<open>
  Modelled from the spec: a domain service, which takes the resolved tenant id "as an
  implicit scoping parameter" and uses it, "never a client-supplied one", for all storage
  filters. It answers with the records it read or wrote and the store afterwards.
\<close>

definition domain_service ::
  "tenant_id \<Rightarrow> operation \<Rightarrow> domain_record list \<Rightarrow> domain_record list \<times> domain_record list" where
  "domain_service t op db =
     (case op of
        List_records \<Rightarrow> (filter (\<lambda>r. record_tenant r = t) db, db)
      | Store r \<Rightarrow> ([r\<lparr>record_tenant := t\<rparr>], db @ [r\<lparr>record_tenant := t\<rparr>]))"

text \<open>
  Modelled from the spec: step 5, the request is forwarded on success only. The result
  is the failure or the records touched, the number of calls of the domain service, and
  the store afterwards.
\<close>

definition handle_request ::
  "signer \<Rightarrow> nat \<Rightarrow> policy \<Rightarrow> tenant_id list \<Rightarrow> domain_record list \<Rightarrow> api_request
     \<Rightarrow> (auth_failure + domain_record list) \<times> nat \<times> domain_record list" where
  "handle_request sign now pol tenants db req =
     (case authorize sign now pol tenants req of
        Inl failure \<Rightarrow> (Inl failure, 0, db)
      | Inr ctx \<Rightarrow>
          (case domain_service (tenant_id ctx) (operation req) db of
             (touched, db') \<Rightarrow> (Inr touched, 1, db')))"

text \<open>A client that is logged in, with the four entries in the storage.\<close>

definition logged_in :: client where
  "logged_in =
     \<lparr>token = Str ''tok-alpha'', user = Obj [(''email'', Str ''admin@alpha-tech.com'')],
      tenant = Obj [(''name'', Str ''Alpha Tech'')], currentCompany = Obj [(''id'', Str ''alpha'')],
      localStorage = [''climabill_token'' \<mapsto> ''tok-alpha'',
                      ''climabill_user'' \<mapsto> ''{}'',
                      ''climabill_tenant'' \<mapsto> ''{}'',
                      ''climabill_company_id'' \<mapsto> ''alpha'']\<rparr>"

text \<open>An entry for a business trip of 120 km, with the number of passengers left empty.\<close>

definition travel_form :: formData where
  "travel_form =
     \<lparr>source_type = ''travel'', period_start = ''2025-01-01'', period_end = ''2025-01-31'',
      activity_data = [(''distance_km'', ''120'')], data_quality = ''estimated''\<rparr>"

text \<open>
  The decoded body of a response with an OK status: what \<^verbatim>\<open>await response.json()\<close>
  gives in the branch \<^verbatim>\<open>if (response.ok)\<close>, if it gives a value whose properties can be
  read.
\<close>

definition successful_body :: "fetch_outcome \<Rightarrow> jsval option" where
  "successful_body out =
     (case out of
        NetworkError \<Rightarrow> None
      | Response r \<Rightarrow>
          if ok r then
            (case json r of None \<Rightarrow> None
             | Some result \<Rightarrow> if nullish result then None else Some result)
          else None)"

text \<open>The test account of the login page, and the answers of the server to it.\<close>

definition alpha_login :: loginData where
  "alpha_login = \<lparr>loginData.email = ''admin@alpha-tech.com'', loginData.password = ''admin123''\<rparr>"

definition alpha_auth_data :: jsval where
  "alpha_auth_data =
     Obj [(''access_token'', Str ''tok-alpha''),
          (''user'', Obj [(''email'', Str ''admin@alpha-tech.com'')]),
          (''tenant'', Obj [(''name'', Str ''Alpha Tech'')])]"




text \<open>An initiative that costs 1000 and saves 250 a year.\<close>

definition solar_panels :: newInitiative where
  "solar_panels =
     \<lparr>initiative_name = ''Solar panels'', description = ''Roof installation'',
      implementation_cost = ''1000'', annual_savings = ''250'', annual_co2_reduction = ''12'',
      implementation_date = ''2025-03-01'', status = ''planned''\<rparr>"

text \<open>
  The \<^verbatim>\<open>source_id\<close> of the record that is posted, if the record can be built.
\<close>

definition posted_source_id :: "env \<Rightarrow> jsval \<Rightarrow> formData \<Rightarrow> jsval \<Rightarrow> js_error + jsval" where
  "posted_source_id E emissionSources fd calculationResult =
     (case recordData E emissionSources fd calculationResult of
        Inl err \<Rightarrow> Inl err
      | Inr rd \<Rightarrow> Inr (field rd ''source_id''))"

text \<open>
  An element of a list of top sources in the shape the dashboard reads: a name and a
  total, no \<^verbatim>\<open>id\<close>.
\<close>

definition top_source :: jsval where
  "top_source = Obj [(''source_name'', Str ''Electricity''), (''total_emissions'', Num (Fin 1200))]"

text \<open>
  An answer to a login with an OK status whose body has no \<^verbatim>\<open>user\<close>: what is stored
  for the user is the text \<^verbatim>\<open>undefined\<close>.
\<close>

definition login_without_user :: jsval where
  "login_without_user = Obj [(''access_token'', Str ''tok-alpha''), (''tenant'', Obj [])]"

text \<open>
  A signing function for the examples, two tenants, the credential of a user of the
  second one, and a record of the first one.
\<close>

definition sample_sign :: signer where
  "sample_sign = (\<lambda>(u, t, e). 7 * length u + 13 * length t + e)"

definition beta_credential :: credential where
  "beta_credential = issue sample_sign 86400 1000 ''user-beta'' ''beta''"

definition alpha_record :: domain_record where
  "alpha_record = \<lparr>record_id = ''e1'', record_tenant = ''alpha'', domain_fields = ''42 kg''\<rparr>"

definition cross_tenant_request :: api_request where
  "cross_tenant_request =
     \<lparr>bearer = Some beta_credential, path_company = Some ''alpha'', operation = List_records\<rparr>"

text \<open>
  \<^verbatim>\<open>AppContent\<close> renders \<^verbatim>\<open>Dashboard\<close> with its current company. The component takes
  nothing from \<^verbatim>\<open>useAuth\<close> and does not touch the storage, so whatever the network
  answers to \<^verbatim>\<open>fetchDashboardData\<close>, the client state afterwards is the one before.
\<close>

definition dashboard_fetch ::
  "env \<Rightarrow> client \<Rightarrow> fetch_outcome \<Rightarrow> (request list \<times> jsval option \<times> string) \<times> client" where
  "dashboard_fetch E c out = (fetchDashboardData E (currentCompany c) out, c)"

section \<open>Properties\<close>

text \<open>
  C10. \<^verbatim>\<open>authenticatedFetch\<close> called while the token is \<^verbatim>\<open>null\<close> (or any other
  falsy value) throws the error "No authentication token available", sends no request,
  whatever the network would have answered, and leaves the client state as it was.
\<close>

theorem authenticatedFetch_requires_token:
  "(token c = Null \<longrightarrow>
      authenticatedFetch E c u opts out =
        (Inl (Error ''No authentication token available''), [], c))
   \<and> (\<not> truthy (token c) \<longrightarrow>
      authenticatedFetch E c u opts out =
        (Inl (Error ''No authentication token available''), [], c))"
  by (simp add: authenticatedFetch_def)

theorem authenticatedFetch_requires_token_witness:
  "token initial_client = Null
   \<and> authenticatedFetch sample_env initial_client ''https://climabill.example/api/companies''
        no_options (Response \<lparr>status = 200, json = Some (Arr [])\<rparr>)
      = (Inl (Error ''No authentication token available''), [], initial_client)"
  using authenticatedFetch_requires_token
          [of initial_client sample_env "''https://climabill.example/api/companies''"
              no_options "Response \<lparr>status = 200, json = Some (Arr [])\<rparr>"]
  by (simp add: initial_client_def)

lemma session_cleared_logout: "session_cleared (logout c)"
  by (simp add: session_cleared_def logout_def removeItem_def Let_def)

text \<open>
  A logout, from the navigation bar or otherwise, clears the session: the four entries
  are removed from the storage and the token, the user and the tenant in memory are
  \<^verbatim>\<open>null\<close>. So does a 401 answer to a call made with \<^verbatim>\<open>authenticatedFetch\<close>, which
  then throws "Authentication expired"; \<^verbatim>\<open>fetchUserCompanies\<close>, the list of companies,
  is the one call of the client that is made this way.
\<close>

lemma session_cleared_on_logout_and_401:
  "session_cleared (logout c)
   \<and> session_cleared (handleLogout c)
   \<and> (truthy (token c) \<and> status r = 401 \<longrightarrow>
        (case authenticatedFetch E c u opts (Response r) of
           (res, reqs, c') \<Rightarrow>
             res = Inl (Error ''Authentication expired'') \<and> session_cleared c'))
   \<and> (truthy (token c) \<and> status r = 401 \<longrightarrow>
        session_cleared (snd (fetchUserCompanies E c (Response r))))"
  by (simp add: session_cleared_logout handleLogout_def authenticatedFetch_def
        fetchUserCompanies_def Let_def)

lemma session_cleared_on_logout_and_401_example:
  "truthy (token logged_in) \<and> status \<lparr>status = 401, json = None\<rparr> = 401
   \<and> \<not> session_cleared logged_in
   \<and> session_cleared (logout logged_in)
   \<and> session_cleared (snd (fetchUserCompanies sample_env logged_in
                              (Response \<lparr>status = 401, json = None\<rparr>)))"
  using session_cleared_on_logout_and_401
          [of logged_in "\<lparr>status = 401, json = None\<rparr>" sample_env]
  by (simp add: logged_in_def session_cleared_def)

text \<open>
  C3. The calls to the endpoints of a company go out with plain \<^verbatim>\<open>fetch\<close>, not with
  \<^verbatim>\<open>authenticatedFetch\<close>: a 401 answer to the request for the dashboard shows "Failed to
  load dashboard data" and leaves the client state as it was, so a client that is logged
  in keeps its token, user and tenant, in memory and in the storage.
\<close>

theorem dashboard_401_keeps_session:
  "dashboard_fetch E c (Response \<lparr>status = 401, json = j\<rparr>) =
     (([\<lparr>url = API E @ ''/companies/'' @ to_string E (field (currentCompany c) ''id'')
                 @ ''/dashboard'',
         http_method = ''GET'', headers = [], body = None\<rparr>],
       None, ''Failed to load dashboard data''), c)
   \<and> snd (dashboard_fetch sample_env logged_in (Response \<lparr>status = 401, json = None\<rparr>))
       = logged_in
   \<and> \<not> session_cleared logged_in
   \<and> localStorage logged_in ''climabill_token'' = Some ''tok-alpha''
   \<and> token logged_in = Str ''tok-alpha''"
  by (simp add: dashboard_fetch_def fetchDashboardData_def ok_def plain_request_def
        no_options_def Let_def session_cleared_def logged_in_def)

lemma fetchUserCompanies_sends_bearer:
  "truthy (token c) \<Longrightarrow>
   fst (fetchUserCompanies E c out) =
     [\<lparr>url = API E @ ''/companies'', http_method = ''GET'',
       headers = [(''Content-Type'', ''application/json''),
                  (''Authorization'', ''Bearer '' @ to_string E (token c))],
       body = None\<rparr>]"
  by (simp add: fetchUserCompanies_def authenticatedFetch_def plain_request_def no_options_def
        Let_def split: fetch_outcome.split option.split sum.split)

text \<open>
  C2. The list of companies is fetched with \<^verbatim>\<open>authenticatedFetch\<close> and carries the
  bearer token (\<open>fetchUserCompanies_sends_bearer\<close>). The calls of the components do not:
  the request for the dashboard has no header at all, and the requests of the emissions
  tracker carry the content type only, whatever token the client holds.
\<close>

theorem component_requests_without_authorization:
  "fst (fetchDashboardData E company out) =
     [\<lparr>url = API E @ ''/companies/'' @ to_string E (field company ''id'') @ ''/dashboard'',
       http_method = ''GET'', headers = [], body = None\<rparr>]
   \<and> headers (calculation_request E fd) = [(''Content-Type'', ''application/json'')]
   \<and> headers (add_request E company rd) = [(''Content-Type'', ''application/json'')]
   \<and> headers (summary_request E company) = []"
  by (simp add: fetchDashboardData_def plain_request_def no_options_def Let_def
        calculation_request_def add_request_def summary_request_def
        split: fetch_outcome.split option.split)

lemma parse_or_missing: "map_of ad k = None \<Longrightarrow> parse_or p ad k d = Fin d"
  by (simp add: parse_or_def)

lemma handleCalculateEmissions_first_request:
  "fst (handleCalculateEmissions E company emissionSources fd out1 out2) \<noteq> []
   \<and> hd (fst (handleCalculateEmissions E company emissionSources fd out1 out2))
       = calculation_request E fd"
  by (simp add: handleCalculateEmissions_def Let_def
        split: fetch_outcome.split option.split sum.split jsval.split)

text \<open>
  C5. Every submission of the emissions form starts with the calculation request, and
  that request is determined by the source type alone: electricity, fuel and travel go to
  their own endpoint with their own members (travel as a list of one trip), every other
  source type goes to the electricity endpoint with \<^verbatim>\<open>kwh_consumed\<close> read from the
  entry \<^verbatim>\<open>energy_consumed\<close> and the region \<^verbatim>\<open>us_average\<close>. A number that is missing from
  the form is 0, and the number of passengers is 1.
\<close>

theorem calculation_request_by_source_type:
  "(source_type fd = ''electricity'' \<longrightarrow>
      calculation_request E fd =
        \<lparr>url = API E @ ''/calculate/electricity'', http_method = ''POST'',
         headers = [(''Content-Type'', ''application/json'')],
         body = Some (JSON_stringify E (Obj
           [(''kwh_consumed'', Num (parse_or (parseFloat E) (activity_data fd) ''kwh_consumed'' 0)),
            (''region'', Str (string_or (activity_data fd) ''region'' ''us_average'')),
            (''renewable_percentage'',
               Num (parse_or (parseFloat E) (activity_data fd) ''renewable_percentage'' 0))]))\<rparr>)
   \<and> (source_type fd = ''fuel'' \<longrightarrow>
      calculation_request E fd =
        \<lparr>url = API E @ ''/calculate/fuel'', http_method = ''POST'',
         headers = [(''Content-Type'', ''application/json'')],
         body = Some (JSON_stringify E (Obj
           [(''fuel_type'', Str (string_or (activity_data fd) ''fuel_type'' ''gasoline'')),
            (''quantity'', Num (parse_or (parseFloat E) (activity_data fd) ''quantity'' 0)),
            (''unit'', Str (string_or (activity_data fd) ''unit'' ''liters''))]))\<rparr>)
   \<and> (source_type fd = ''travel'' \<longrightarrow>
      calculation_request E fd =
        \<lparr>url = API E @ ''/calculate/travel'', http_method = ''POST'',
         headers = [(''Content-Type'', ''application/json'')],
         body = Some (JSON_stringify E (Arr [Obj
           [(''transport_mode'', Str (string_or (activity_data fd) ''transport_mode'' ''car_petrol'')),
            (''distance_km'', Num (parse_or (parseFloat E) (activity_data fd) ''distance_km'' 0)),
            (''passengers'', Num (parse_or (parseInt E) (activity_data fd) ''passengers'' 1))]]))\<rparr>)
   \<and> (source_type fd \<noteq> ''electricity'' \<and> source_type fd \<noteq> ''fuel''
        \<and> source_type fd \<noteq> ''travel'' \<longrightarrow>
      calculation_request E fd =
        \<lparr>url = API E @ ''/calculate/electricity'', http_method = ''POST'',
         headers = [(''Content-Type'', ''application/json'')],
         body = Some (JSON_stringify E (Obj
           [(''kwh_consumed'', Num (parse_or (parseFloat E) (activity_data fd) ''energy_consumed'' 0)),
            (''region'', Str ''us_average'')]))\<rparr>)
   \<and> (map_of (activity_data fd) k = None \<longrightarrow>
        parse_or (parseFloat E) (activity_data fd) k 0 = Fin 0
        \<and> parse_or (parseInt E) (activity_data fd) k 1 = Fin 1)
   \<and> fst (handleCalculateEmissions E company emissionSources fd out1 out2) \<noteq> []
   \<and> hd (fst (handleCalculateEmissions E company emissionSources fd out1 out2))
       = calculation_request E fd"
  using handleCalculateEmissions_first_request [of E company emissionSources fd out1 out2]
  by (simp add: calculation_request_def calculationEndpoint_def requestBody_def
        calculationData_def Let_def parse_or_missing)

theorem calculation_request_by_source_type_witness:
  "source_type travel_form = ''travel''
   \<and> map_of (activity_data travel_form) ''passengers'' = None
   \<and> calculation_request sample_env travel_form =
        \<lparr>url = ''https://climabill.example/api/calculate/travel'', http_method = ''POST'',
         headers = [(''Content-Type'', ''application/json'')],
         body = Some (sample_stringify (Arr [Obj
           [(''transport_mode'', Str ''car_petrol''),
            (''distance_km'', Num (Fin 120)),
            (''passengers'', Num (Fin 1))]]))\<rparr>
   \<and> source_type (travel_form\<lparr>source_type := ''office''\<rparr>) \<noteq> ''electricity''
   \<and> calculation_request sample_env
        (travel_form\<lparr>source_type := ''office'', activity_data := [(''energy_consumed'', ''250'')]\<rparr>) =
        \<lparr>url = ''https://climabill.example/api/calculate/electricity'', http_method = ''POST'',
         headers = [(''Content-Type'', ''application/json'')],
         body = Some (sample_stringify (Obj
           [(''kwh_consumed'', Num (Fin 250)), (''region'', Str ''us_average'')]))\<rparr>"
  using calculation_request_by_source_type [of travel_form sample_env "''passengers''"]
    calculation_request_by_source_type
      [of "travel_form\<lparr>source_type := ''office'', activity_data := [(''energy_consumed'', ''250'')]\<rparr>"
          sample_env]
  by (simp add: travel_form_def sample_env_def API_def parse_or_def string_or_def
        sample_parse_def)

lemma store_auth_data_storage:
  "localStorage (store_auth_data E result c) =
     (localStorage c)
       (''climabill_token'' \<mapsto> to_string E (field result ''access_token''),
        ''climabill_user'' \<mapsto> to_string E (json_stringify E (field result ''user'')),
        ''climabill_tenant'' \<mapsto> to_string E (json_stringify E (field result ''tenant'')))"
  by (simp add: store_auth_data_def setItem_def Let_def)

lemma login_storage:
  "localStorage (login E result c) =
     (localStorage c)
       (''climabill_token'' \<mapsto> to_string E (field result ''access_token''),
        ''climabill_user'' \<mapsto> to_string E (json_stringify E (field result ''user'')),
        ''climabill_tenant'' \<mapsto> to_string E (json_stringify E (field result ''tenant'')))"
  by (simp add: login_def setItem_def Let_def)

lemma login_memory:
  "token (login E result c) = field result ''access_token''
   \<and> user (login E result c) = field result ''user''
   \<and> tenant (login E result c) = field result ''tenant''"
  by (simp add: login_def setItem_def Let_def)

lemma handleAuthSuccess_session:
  "localStorage (handleAuthSuccess E result c) ''climabill_token''
     = Some (to_string E (field result ''access_token''))
   \<and> localStorage (handleAuthSuccess E result c) ''climabill_user''
     = Some (to_string E (json_stringify E (field result ''user'')))
   \<and> localStorage (handleAuthSuccess E result c) ''climabill_tenant''
     = Some (to_string E (json_stringify E (field result ''tenant'')))
   \<and> token (handleAuthSuccess E result c) = field result ''access_token''
   \<and> user (handleAuthSuccess E result c) = field result ''user''
   \<and> tenant (handleAuthSuccess E result c) = field result ''tenant''"
  by (simp add: handleAuthSuccess_def Let_def login_storage login_memory setItem_def)

text \<open>
  C6. \<^verbatim>\<open>handleLogin\<close> always sends one request, POST \<^verbatim>\<open>/api/auth/login\<close> with the email
  and the password URL-encoded in the query. It calls \<^verbatim>\<open>onAuthSuccess\<close> exactly when the
  response is successful (an OK status and a decoded body), and then the token, the user
  and the tenant of the body are in the storage and in memory. Otherwise the client state
  is unchanged; on a status that is not OK the message is the \<^verbatim>\<open>detail\<close> of the body,
  or "Login failed", or the network error message where the body does not decode.
\<close>

theorem handleLogin_stores_exactly_on_success:
  "requests (handleLogin E ld c out) =
     [\<lparr>url = API E @ ''/auth/login?email='' @ encodeURIComponent E (loginData.email ld)
              @ ''&password='' @ encodeURIComponent E (loginData.password ld),
       http_method = ''POST'',
       headers = [(''Content-Type'', ''application/json'')],
       body = None\<rparr>]
   \<and> authSuccess (handleLogin E ld c out) = successful_body out
   \<and> (successful_body out = Some result \<longrightarrow>
        localStorage (after (handleLogin E ld c out)) ''climabill_token''
          = Some (to_string E (field result ''access_token''))
        \<and> localStorage (after (handleLogin E ld c out)) ''climabill_user''
          = Some (to_string E (json_stringify E (field result ''user'')))
        \<and> localStorage (after (handleLogin E ld c out)) ''climabill_tenant''
          = Some (to_string E (json_stringify E (field result ''tenant'')))
        \<and> token (after (handleLogin E ld c out)) = field result ''access_token''
        \<and> user (after (handleLogin E ld c out)) = field result ''user''
        \<and> tenant (after (handleLogin E ld c out)) = field result ''tenant'')
   \<and> (successful_body out = None \<longrightarrow> after (handleLogin E ld c out) = c)
   \<and> (out = Response r \<and> \<not> ok r \<longrightarrow>
        after (handleLogin E ld c out) = c
        \<and> authSuccess (handleLogin E ld c out) = None
        \<and> error (handleLogin E ld c out) =
            (case json r of
               None \<Rightarrow> Str ''Network error. Please try again.''
             | Some errorData \<Rightarrow>
                 if nullish errorData then Str ''Network error. Please try again.''
                 else if truthy (field errorData ''detail'') then field errorData ''detail''
                 else Str ''Login failed''))"
  by (auto simp add: handleLogin_def successful_body_def login_request_def network_error_def
        handleAuthSuccess_session js_or_def Let_def
        split: fetch_outcome.splits option.splits if_splits)

theorem handleLogin_stores_exactly_on_success_witness:
  "successful_body (Response \<lparr>status = 200, json = Some alpha_auth_data\<rparr>) = Some alpha_auth_data
   \<and> requests (handleLogin sample_env alpha_login initial_client
                  (Response \<lparr>status = 200, json = Some alpha_auth_data\<rparr>)) =
       [\<lparr>url = ''https://climabill.example/api/auth/login?email=admin%40alpha-tech.com&password=admin123'',
         http_method = ''POST'', headers = [(''Content-Type'', ''application/json'')],
         body = None\<rparr>]
   \<and> localStorage (after (handleLogin sample_env alpha_login initial_client
                             (Response \<lparr>status = 200, json = Some alpha_auth_data\<rparr>)))
         ''climabill_token'' = Some ''tok-alpha''
   \<and> token (after (handleLogin sample_env alpha_login initial_client
                      (Response \<lparr>status = 200, json = Some alpha_auth_data\<rparr>)))
       = Str ''tok-alpha''
   \<and> \<not> ok \<lparr>status = 401, json = Some (Obj [(''detail'', Str ''Invalid email or password'')])\<rparr>
   \<and> successful_body
         (Response \<lparr>status = 401, json = Some (Obj [(''detail'', Str ''Invalid email or password'')])\<rparr>)
       = None
   \<and> after (handleLogin sample_env alpha_login initial_client
         (Response \<lparr>status = 401, json = Some (Obj [(''detail'', Str ''Invalid email or password'')])\<rparr>))
       = initial_client
   \<and> error (handleLogin sample_env alpha_login initial_client
         (Response \<lparr>status = 401, json = Some (Obj [(''detail'', Str ''Invalid email or password'')])\<rparr>))
       = Str ''Invalid email or password''"
  using handleLogin_stores_exactly_on_success
          [of sample_env alpha_login initial_client
              "Response \<lparr>status = 200, json = Some alpha_auth_data\<rparr>" alpha_auth_data]
        handleLogin_stores_exactly_on_success
          [of sample_env alpha_login initial_client
              "Response \<lparr>status = 401, json = Some (Obj [(''detail'', Str ''Invalid email or password'')])\<rparr>"
              alpha_auth_data
              "\<lparr>status = 401, json = Some (Obj [(''detail'', Str ''Invalid email or password'')])\<rparr>"]
  by (simp add: successful_body_def ok_def alpha_auth_data_def alpha_login_def sample_env_def
        API_def sample_encode_def)






lemma js_mul_finite: "is_finite (js_mul E x (Fin k)) \<Longrightarrow> is_finite x"
  by (cases x) (simp_all split: if_splits)

lemma js_div_finite: "is_finite (js_div E a b) \<Longrightarrow> b \<noteq> NaN \<and> b \<noteq> Fin 0"
  by (cases a; cases b) (simp_all split: if_splits)

text \<open>
  C8. The object that \<^verbatim>\<open>handleAddInitiative\<close> posts carries as \<^verbatim>\<open>roi_percentage\<close> the
  quotient of the parsed savings by the parsed cost, times 100. Nothing guards the
  divisor: the request is sent whenever the object can be built, and only an invalid date
  prevents that. The posted value is finite only if the cost parses to a number other
  than zero (a cost of zero gives an infinity or \<^verbatim>\<open>NaN\<close>); it is finite if moreover
  the savings parse to a finite number and neither the quotient nor the product
  overflows.
\<close>

theorem roi_percentage_unguarded:
  "(initiative_body E company ni = Inr b \<longrightarrow>
      field b ''roi_percentage'' =
        Num (js_mul E (js_div E (parseFloat E (annual_savings ni))
                                (parseFloat E (implementation_cost ni)))
                     (Fin 100))
      \<and> fst (handleAddInitiative E company ni out) \<noteq> []
      \<and> hd (fst (handleAddInitiative E company ni out)) =
          \<lparr>url = initiatives_url E company, http_method = ''POST'',
           headers = [(''Content-Type'', ''application/json'')],
           body = Some (JSON_stringify E b)\<rparr>)
   \<and> (initiative_body E company ni = Inl err \<longrightarrow>
        toISOString E (implementation_date ni) = None)
   \<and> (is_finite (roi_percentage E ni) \<longrightarrow>
        parseFloat E (implementation_cost ni) \<noteq> NaN
        \<and> parseFloat E (implementation_cost ni) \<noteq> Fin 0)
   \<and> (parseFloat E (annual_savings ni) = Fin s
        \<and> parseFloat E (implementation_cost ni) = Fin c \<and> c \<noteq> 0
        \<and> fl E (s / c) = Fin q \<and> is_finite (fl E (q * 100)) \<longrightarrow>
        is_finite (roi_percentage E ni))"
proof (intro conjI impI)
  assume b: "initiative_body E company ni = Inr b"
  then show "field b ''roi_percentage'' =
        Num (js_mul E (js_div E (parseFloat E (annual_savings ni))
                                (parseFloat E (implementation_cost ni)))
                     (Fin 100))"
    by (auto simp add: initiative_body_def roi_percentage_def split: option.splits)
  from b show "fst (handleAddInitiative E company ni out) \<noteq> []"
    by (simp add: handleAddInitiative_def Let_def split: fetch_outcome.split)
  from b show "hd (fst (handleAddInitiative E company ni out)) =
          \<lparr>url = initiatives_url E company, http_method = ''POST'',
           headers = [(''Content-Type'', ''application/json'')],
           body = Some (JSON_stringify E b)\<rparr>"
    by (simp add: handleAddInitiative_def Let_def split: fetch_outcome.split)
next
  assume "initiative_body E company ni = Inl err"
  then show "toISOString E (implementation_date ni) = None"
    by (simp add: initiative_body_def split: option.splits)
next
  assume fin: "is_finite (roi_percentage E ni)"
  then have "is_finite (js_div E (parseFloat E (annual_savings ni))
                                 (parseFloat E (implementation_cost ni)))"
    unfolding roi_percentage_def by (rule js_mul_finite)
  then have "parseFloat E (implementation_cost ni) \<noteq> NaN
        \<and> parseFloat E (implementation_cost ni) \<noteq> Fin 0"
    by (rule js_div_finite)
  then show "parseFloat E (implementation_cost ni) \<noteq> NaN"
    and "parseFloat E (implementation_cost ni) \<noteq> Fin 0"
    by simp_all
next
  assume "parseFloat E (annual_savings ni) = Fin s
        \<and> parseFloat E (implementation_cost ni) = Fin c \<and> c \<noteq> 0
        \<and> fl E (s / c) = Fin q \<and> is_finite (fl E (q * 100))"
  then show "is_finite (roi_percentage E ni)"
    by (simp add: roi_percentage_def)
qed

lemma sample_parse_1000: "sample_parse ''1000'' = Fin 1000"
  by (simp add: sample_parse_def)

lemma sample_parse_250: "sample_parse ''250'' = Fin 250"
  by (simp add: sample_parse_def)

lemma sample_parse_0: "sample_parse ''0'' = Fin 0"
  by (simp add: sample_parse_def)

theorem roi_percentage_unguarded_witness:
  "is_finite (roi_percentage sample_env solar_panels)
   \<and> roi_percentage sample_env solar_panels = Fin 25
   \<and> parseFloat sample_env (implementation_cost solar_panels) = Fin 1000
   \<and> initiative_body sample_env (Obj [(''id'', Str ''alpha'')])
        (solar_panels\<lparr>implementation_date := []\<rparr>) = Inl RangeError
   \<and> roi_percentage sample_env (solar_panels\<lparr>implementation_cost := ''0''\<rparr>) = PosInf
   \<and> fst (handleAddInitiative sample_env (Obj [(''id'', Str ''alpha'')])
             (solar_panels\<lparr>implementation_cost := ''0''\<rparr>) NetworkError) \<noteq> []"
proof -
  have roi: "roi_percentage sample_env solar_panels = Fin 25"
    by (simp add: solar_panels_def sample_env_def roi_percentage_def
          sample_parse_1000 sample_parse_250)
  have fin: "is_finite (roi_percentage sample_env solar_panels)"
    using roi_percentage_unguarded
            [of sample_env _ solar_panels _ _ _ 250 1000 "1 / 4"]
    by (simp add: solar_panels_def sample_env_def sample_parse_1000 sample_parse_250)
  have cost: "parseFloat sample_env (implementation_cost solar_panels) = Fin 1000"
    using roi_percentage_unguarded [of sample_env _ solar_panels] fin
    by (simp add: solar_panels_def sample_env_def sample_parse_1000)
  have bad_date: "initiative_body sample_env (Obj [(''id'', Str ''alpha'')])
        (solar_panels\<lparr>implementation_date := []\<rparr>) = Inl RangeError"
    by (simp add: initiative_body_def sample_env_def)
  have zero: "roi_percentage sample_env (solar_panels\<lparr>implementation_cost := ''0''\<rparr>) = PosInf"
    by (simp add: solar_panels_def sample_env_def roi_percentage_def
          sample_parse_0 sample_parse_250)
  obtain b where b: "initiative_body sample_env (Obj [(''id'', Str ''alpha'')])
        (solar_panels\<lparr>implementation_cost := ''0''\<rparr>) = Inr b"
    by (simp add: initiative_body_def sample_env_def solar_panels_def)
  have sent: "fst (handleAddInitiative sample_env (Obj [(''id'', Str ''alpha'')])
             (solar_panels\<lparr>implementation_cost := ''0''\<rparr>) NetworkError) \<noteq> []"
    using roi_percentage_unguarded
            [of sample_env "Obj [(''id'', Str ''alpha'')]"
                "solar_panels\<lparr>implementation_cost := ''0''\<rparr>" b NetworkError] b
    by simp
  show ?thesis using roi fin cost bad_date zero sent by simp
qed

text \<open>
  C9, as stated, fails on a list whose first element has no \<^verbatim>\<open>id\<close>: the list is not
  empty, and the record is posted with the literal \<^verbatim>\<open>default-source-id\<close>.
\<close>

theorem source_id_of_first_source_counterexample:
  "sourceId (Arr [top_source]) = Inr (Str ''default-source-id'')
   \<and> field top_source ''id'' = Undefined
   \<and> posted_source_id sample_env (Arr [top_source]) travel_form
        (Obj [(''co2_equivalent_kg'', Num (Fin 25))])
      \<noteq> Inr (field top_source ''id'')"
  by (simp add: sourceId_def top_source_def opt_field_def js_or_def posted_source_id_def
        recordData_def travel_form_def sample_env_def)

lemma recordData_source_type:
  "recordData E emissionSources (fd\<lparr>source_type := t\<rparr>) calculationResult
     = recordData E emissionSources fd calculationResult"
  by (simp add: recordData_def split: sum.split option.split)

lemma posted_source_id_sourceId:
  "posted_source_id E emissionSources fd calculationResult = Inr v
     \<Longrightarrow> sourceId emissionSources = Inr v"
  by (auto simp add: posted_source_id_def recordData_def split: sum.splits option.splits if_splits)

lemma handleCalculateEmissions_second_request:
  "Suc 0 < length (fst (handleCalculateEmissions E company emissionSources fd out1 out2))
   \<Longrightarrow> \<exists>calculationResult rd.
         recordData E emissionSources fd calculationResult = Inr rd
         \<and> fst (handleCalculateEmissions E company emissionSources fd out1 out2) ! 1
             = add_request E company rd"
  by (auto simp add: handleCalculateEmissions_def Let_def
        split: fetch_outcome.splits option.splits sum.splits jsval.splits if_splits)

text \<open>
  C9, amended. The \<^verbatim>\<open>source_id\<close> of every record the tracker posts comes from the list
  of top sources alone: it is the \<^verbatim>\<open>id\<close> of the first element where that is truthy, and
  the literal \<^verbatim>\<open>default-source-id\<close> where the list is empty or its first element has no
  truthy \<^verbatim>\<open>id\<close>. The source type of the form has no part in it. The second request of
  \<^verbatim>\<open>handleCalculateEmissions\<close>, when there is one, posts such a record.
\<close>

theorem source_id_of_first_source:
  "sourceId (Arr []) = Inr (Str ''default-source-id'')
   \<and> (truthy (opt_field x ''id'') \<longrightarrow> sourceId (Arr (x # xs)) = Inr (field x ''id''))
   \<and> (\<not> truthy (opt_field x ''id'') \<longrightarrow>
        sourceId (Arr (x # xs)) = Inr (Str ''default-source-id''))
   \<and> (posted_source_id E emissionSources fd calculationResult = Inr v \<longrightarrow>
        sourceId emissionSources = Inr v)
   \<and> posted_source_id E emissionSources (fd\<lparr>source_type := t\<rparr>) calculationResult
       = posted_source_id E emissionSources fd calculationResult
   \<and> (Suc 0 < length (fst (handleCalculateEmissions E company emissionSources fd out1 out2))
        \<longrightarrow> (\<exists>result rd.
               recordData E emissionSources fd result = Inr rd
               \<and> fst (handleCalculateEmissions E company emissionSources fd out1 out2) ! 1
                   = add_request E company rd))"
proof (intro conjI impI)
  show "sourceId (Arr []) = Inr (Str ''default-source-id'')"
    by (simp add: sourceId_def opt_field_def js_or_def)
  show "sourceId (Arr (x # xs)) = Inr (field x ''id'')" if "truthy (opt_field x ''id'')"
    using that by (simp add: sourceId_def opt_field_def js_or_def split: if_splits)
  show "sourceId (Arr (x # xs)) = Inr (Str ''default-source-id'')"
    if "\<not> truthy (opt_field x ''id'')"
    using that by (simp add: sourceId_def js_or_def)
  show "sourceId emissionSources = Inr v"
    if "posted_source_id E emissionSources fd calculationResult = Inr v"
    using that by (rule posted_source_id_sourceId)
  show "posted_source_id E emissionSources (fd\<lparr>source_type := t\<rparr>) calculationResult
       = posted_source_id E emissionSources fd calculationResult"
    by (simp add: posted_source_id_def recordData_source_type)
  show "\<exists>result rd.
               recordData E emissionSources fd result = Inr rd
               \<and> fst (handleCalculateEmissions E company emissionSources fd out1 out2) ! 1
                   = add_request E company rd"
    if "Suc 0 < length (fst (handleCalculateEmissions E company emissionSources fd out1 out2))"
    using that by (rule handleCalculateEmissions_second_request)
qed

theorem source_id_of_first_source_witness:
  "truthy (opt_field (Obj [(''id'', Str ''src-1'')]) ''id'')
   \<and> sourceId (Arr [Obj [(''id'', Str ''src-1'')], top_source]) = Inr (Str ''src-1'')
   \<and> \<not> truthy (opt_field top_source ''id'')
   \<and> sourceId (Arr [top_source, Obj [(''id'', Str ''src-1'')]]) = Inr (Str ''default-source-id'')
   \<and> posted_source_id sample_env (Arr [Obj [(''id'', Str ''src-1'')]]) travel_form
        (Obj [(''co2_equivalent_kg'', Num (Fin 25))]) = Inr (Str ''src-1'')
   \<and> posted_source_id sample_env (Arr [Obj [(''id'', Str ''src-1'')]])
        (travel_form\<lparr>source_type := ''fuel''\<rparr>)
        (Obj [(''co2_equivalent_kg'', Num (Fin 25))]) = Inr (Str ''src-1'')"
proof -
  have t: "truthy (opt_field (Obj [(''id'', Str ''src-1'')]) ''id'')"
    by (simp add: opt_field_def)
  have f: "\<not> truthy (opt_field top_source ''id'')"
    by (simp add: opt_field_def top_source_def)
  have p: "posted_source_id sample_env (Arr [Obj [(''id'', Str ''src-1'')]]) travel_form
        (Obj [(''co2_equivalent_kg'', Num (Fin 25))]) = Inr (Str ''src-1'')"
    by (simp add: posted_source_id_def recordData_def sourceId_def opt_field_def js_or_def
          travel_form_def sample_env_def)
  note inst1 = source_id_of_first_source
      [of "Obj [(''id'', Str ''src-1'')]" "[top_source]" sample_env
          "Arr [Obj [(''id'', Str ''src-1'')]]" travel_form
          "Obj [(''co2_equivalent_kg'', Num (Fin 25))]" "Str ''src-1''" "''fuel''"]
  note inst2 = source_id_of_first_source
      [of top_source "[Obj [(''id'', Str ''src-1'')]]"]
  show ?thesis using t f p inst1 inst2 by simp
qed

lemma logout_storage:
  "localStorage (logout c) =
     (localStorage c)(''climabill_token'' := None, ''climabill_user'' := None,
                      ''climabill_tenant'' := None, ''climabill_company_id'' := None)"
  by (simp add: logout_def removeItem_def Let_def)

lemma mount_storage:
  "localStorage (mount E c) =
     (if unreadable_saved_session E c then localStorage (logout c) else localStorage c)"
  by (auto simp add: mount_def unreadable_saved_session_def split: option.splits)

lemma handleAuthSuccess_session_keys:
  "k \<in> set session_keys \<Longrightarrow> \<exists>y. localStorage (handleAuthSuccess E result c) k = Some y"
  using handleAuthSuccess_session [of E result c]
  by (auto simp add: session_keys_def)

lemma store_auth_data_session_keys:
  "k \<in> set session_keys \<Longrightarrow> \<exists>y. localStorage (store_auth_data E result c) k = Some y"
  by (auto simp add: session_keys_def store_auth_data_storage)

lemma handleLogin_storage:
  "after (handleLogin E ld c out) = c
   \<or> (login_or_registration_success (HandleLogin ld out)
      \<and> (\<forall>k \<in> set session_keys. localStorage (after (handleLogin E ld c out)) k \<noteq> None))"
  by (auto simp add: handleLogin_def network_error_def Let_def handleAuthSuccess_session_keys
        split: fetch_outcome.splits option.splits)

lemma handleSignup_storage:
  "after (handleSignup E sd c out) = c
   \<or> (login_or_registration_success (HandleSignup sd out)
      \<and> (\<forall>k \<in> set session_keys. localStorage (after (handleSignup E sd c out)) k \<noteq> None))"
  by (auto simp add: handleSignup_def network_error_def Let_def handleAuthSuccess_session_keys
        store_auth_data_session_keys
        split: fetch_outcome.splits option.splits)

lemma fetchUserCompanies_storage:
  "k \<in> set session_keys \<Longrightarrow>
   localStorage (snd (fetchUserCompanies E c out)) k = localStorage c k
   \<or> (logout_or_401 (FetchUserCompanies out)
      \<and> localStorage (snd (fetchUserCompanies E c out)) k = None)"
  by (auto simp add: fetchUserCompanies_def authenticatedFetch_def logout_storage Let_def
        setItem_def session_keys_def
        split: fetch_outcome.splits option.splits sum.splits if_splits)

lemma company_handlers_storage:
  "k \<in> set session_keys \<Longrightarrow>
   localStorage (handleNewCompany c) k = localStorage c k
   \<and> localStorage (snd (load_saved_company E c out)) k = localStorage c k
   \<and> localStorage (handleCompanyCreated E company c) k = localStorage c k"
  by (auto simp add: handleNewCompany_def load_saved_company_def fetchCompany_def
        handleCompanyCreated_def removeItem_def setItem_def session_keys_def Let_def
        split: fetch_outcome.splits option.splits)

lemma step_session_key:
  assumes k: "k \<in> set session_keys"
  shows "localStorage (step E c e) k = localStorage c k
     \<or> (login_or_registration_success e \<and> localStorage (step E c e) k \<noteq> None)
     \<or> ((logout_or_401 e \<or> (e = Mount \<and> unreadable_saved_session E c))
        \<and> localStorage (step E c e) k = None)"
proof (cases e)
  case Mount
  then show ?thesis using k
    by (auto simp add: mount_storage logout_storage session_keys_def)
next
  case HandleLogout
  then show ?thesis using k
    by (auto simp add: handleLogout_def logout_storage session_keys_def)
next
  case (HandleLogin ld out)
  then show ?thesis using k handleLogin_storage [of E ld c out] by auto
next
  case (HandleSignup sd out)
  then show ?thesis using k handleSignup_storage [of E sd c out] by auto
next
  case (FetchUserCompanies out)
  then show ?thesis using fetchUserCompanies_storage [OF k, of E c out] by auto
next
  case HandleNewCompany
  then show ?thesis using company_handlers_storage [OF k] by simp
next
  case (LoadSavedCompany out)
  then show ?thesis using company_handlers_storage [OF k] by simp
next
  case (HandleCompanyCreated company)
  then show ?thesis using company_handlers_storage [OF k] by simp
qed

text \<open>
  C4, amended. Whatever handler of the client runs, an entry of the storage for the token,
  the user or the tenant changes only on a login or registration that was answered with an
  OK status, on a logout, on a 401 answer to \<^verbatim>\<open>authenticatedFetch\<close>, or on a mount that
  finds saved data it cannot parse. An entry appears only in the first case and disappears
  only in the other three.
\<close>

theorem session_storage_writers:
  "k \<in> set session_keys \<longrightarrow>
     (localStorage (step E c e) k \<noteq> localStorage c k \<longrightarrow>
        login_or_registration_success e \<or> logout_or_401 e
        \<or> (e = Mount \<and> unreadable_saved_session E c))
     \<and> (localStorage c k = None \<and> localStorage (step E c e) k \<noteq> None \<longrightarrow>
        login_or_registration_success e)
     \<and> (localStorage c k \<noteq> None \<and> localStorage (step E c e) k = None \<longrightarrow>
        logout_or_401 e \<or> (e = Mount \<and> unreadable_saved_session E c))"
proof
  assume k: "k \<in> set session_keys"
  from step_session_key [OF k, of E c e]
  show "(localStorage (step E c e) k \<noteq> localStorage c k \<longrightarrow>
        login_or_registration_success e \<or> logout_or_401 e
        \<or> (e = Mount \<and> unreadable_saved_session E c))
     \<and> (localStorage c k = None \<and> localStorage (step E c e) k \<noteq> None \<longrightarrow>
        login_or_registration_success e)
     \<and> (localStorage c k \<noteq> None \<and> localStorage (step E c e) k = None \<longrightarrow>
        logout_or_401 e \<or> (e = Mount \<and> unreadable_saved_session E c))"
    by auto
qed

lemma after_login_without_user:
  "localStorage (run sample_env initial_client
      [HandleLogin alpha_login (Response \<lparr>status = 200, json = Some login_without_user\<rparr>)])
   = [''climabill_token'' \<mapsto> ''tok-alpha'', ''climabill_user'' \<mapsto> ''undefined'',
      ''climabill_tenant'' \<mapsto> ''{}'']"
  by (simp add: handleLogin_def ok_def login_without_user_def Let_def
        handleAuthSuccess_def login_storage store_auth_data_storage initial_client_def
        json_stringify_def sample_env_def)

text \<open>
  C4, as stated, fails on a start of the client: a login answered with an OK status and a
  body without \<^verbatim>\<open>user\<close> stores the text \<^verbatim>\<open>undefined\<close>, which \<^verbatim>\<open>JSON.parse\<close> rejects
  on the next mount, and the mount clears the storage. It is neither a logout nor a 401.
\<close>

theorem session_storage_writers_counterexample:
  "localStorage (run sample_env initial_client
      [HandleLogin alpha_login (Response \<lparr>status = 200, json = Some login_without_user\<rparr>)])
     ''climabill_token'' = Some ''tok-alpha''
   \<and> localStorage (run sample_env initial_client
      [HandleLogin alpha_login (Response \<lparr>status = 200, json = Some login_without_user\<rparr>),
       Mount])
     ''climabill_token'' = None
   \<and> \<not> login_or_registration_success Mount
   \<and> \<not> logout_or_401 Mount"
proof -
  let ?c = "run sample_env initial_client
      [HandleLogin alpha_login (Response \<lparr>status = 200, json = Some login_without_user\<rparr>)]"
  have st: "localStorage ?c
     = [''climabill_token'' \<mapsto> ''tok-alpha'', ''climabill_user'' \<mapsto> ''undefined'',
        ''climabill_tenant'' \<mapsto> ''{}'']"
    by (rule after_login_without_user)
  have unreadable: "unreadable_saved_session sample_env ?c"
    unfolding unreadable_saved_session_def saved_def st
    by (simp add: sample_env_def sample_json_parse_def)
  have "localStorage (step sample_env ?c Mount) ''climabill_token'' = None"
    using unreadable by (simp add: mount_storage logout_storage)
  then have "localStorage (run sample_env initial_client
      [HandleLogin alpha_login (Response \<lparr>status = 200, json = Some login_without_user\<rparr>),
       Mount]) ''climabill_token'' = None"
    by simp
  then show ?thesis using st by simp
qed

theorem session_storage_writers_witness:
  "''climabill_token'' \<in> set session_keys
   \<and> localStorage initial_client ''climabill_token'' = None
   \<and> localStorage (step sample_env initial_client
         (HandleLogin alpha_login (Response \<lparr>status = 200, json = Some alpha_auth_data\<rparr>)))
        ''climabill_token'' \<noteq> None
   \<and> login_or_registration_success
        (HandleLogin alpha_login (Response \<lparr>status = 200, json = Some alpha_auth_data\<rparr>))
   \<and> localStorage logged_in ''climabill_token'' \<noteq> None
   \<and> localStorage (step sample_env logged_in HandleLogout) ''climabill_token'' = None
   \<and> logout_or_401 HandleLogout"
proof -
  have k: "''climabill_token'' \<in> set session_keys"
    by (simp add: session_keys_def)
  have before: "localStorage initial_client ''climabill_token'' = None"
    by (simp add: initial_client_def)
  have stored: "localStorage (step sample_env initial_client
         (HandleLogin alpha_login (Response \<lparr>status = 200, json = Some alpha_auth_data\<rparr>)))
        ''climabill_token'' \<noteq> None"
    by (simp add: handleLogin_def ok_def alpha_auth_data_def Let_def handleAuthSuccess_session)
  have success: "login_or_registration_success
        (HandleLogin alpha_login (Response \<lparr>status = 200, json = Some alpha_auth_data\<rparr>))"
    using session_storage_writers
            [of "''climabill_token''" sample_env initial_client
                "HandleLogin alpha_login (Response \<lparr>status = 200, json = Some alpha_auth_data\<rparr>)"]
          k before stored
    by simp
  have held: "localStorage logged_in ''climabill_token'' \<noteq> None"
    by (simp add: logged_in_def)
  have gone: "localStorage (step sample_env logged_in HandleLogout) ''climabill_token'' = None"
    by (simp add: handleLogout_def logout_storage)
  have "logout_or_401 HandleLogout"
    using session_storage_writers
            [of "''climabill_token''" sample_env logged_in HandleLogout] k held gone
    by simp
  then show ?thesis using k before stored success held gone by simp
qed

lemma domain_service_scoped:
  "domain_service t op db = (touched, db') \<Longrightarrow>
   (\<forall>r \<in> set touched. record_tenant r = t)
   \<and> (\<forall>r \<in> set db'. r \<in> set db \<or> record_tenant r = t)"
  by (cases op) (auto simp add: domain_service_def)

text \<open>
  C1. A request whose path names a company other than the tenant of its verified
  credential is rejected, with Forbidden, or with NotFound under the collapsing policy or
  for a company that does not exist; the domain service is not called and the store is
  unchanged. Whenever a request is served, every record it reads or writes carries the
  tenant id of the credential, whatever the path or the body says, and every record that
  is new in the store does.
\<close>

theorem cross_tenant_request_rejected:
  "(bearer req = Some tok \<and> verify sign now tok = Some ctx \<and> path_company req = Some a
      \<and> a \<noteq> tenant_id ctx \<longrightarrow>
      handle_request sign now pol tenants db req =
        (Inl (if pol = Collapse \<or> a \<notin> set tenants then NotFound else Forbidden), 0, db))
   \<and> (handle_request sign now pol tenants db req = (Inl failure, n, db') \<longrightarrow>
        n = 0 \<and> db' = db)
   \<and> (handle_request sign now pol tenants db req = (Inr touched, n, db') \<longrightarrow>
        (\<exists>tok. bearer req = Some tok
           \<and> verify sign now tok = Some \<lparr>user_id = cred_user tok, tenant_id = cred_tenant tok\<rparr>
           \<and> (\<forall>a. path_company req = Some a \<longrightarrow> a = cred_tenant tok)
           \<and> (\<forall>r \<in> set touched. record_tenant r = cred_tenant tok)
           \<and> (\<forall>r \<in> set db'. r \<in> set db \<or> record_tenant r = cred_tenant tok)))"
proof (intro conjI impI)
  assume "bearer req = Some tok \<and> verify sign now tok = Some ctx \<and> path_company req = Some a
      \<and> a \<noteq> tenant_id ctx"
  then show "handle_request sign now pol tenants db req =
        (Inl (if pol = Collapse \<or> a \<notin> set tenants then NotFound else Forbidden), 0, db)"
    by (simp add: handle_request_def authorize_def)
next
  assume h: "handle_request sign now pol tenants db req = (Inl failure, n, db')"
  then show "n = 0" and "db' = db"
    by (auto simp add: handle_request_def split: sum.splits prod.splits)
next
  assume h: "handle_request sign now pol tenants db req = (Inr touched, n, db')"
  then obtain ctx where
    auth: "authorize sign now pol tenants req = Inr ctx"
    and svc: "domain_service (tenant_id ctx) (operation req) db = (touched, db')"
    by (auto simp add: handle_request_def split: sum.splits prod.splits)
  from auth obtain tok where
    tok: "bearer req = Some tok" and ver: "verify sign now tok = Some ctx"
    and path: "\<forall>a. path_company req = Some a \<longrightarrow> a = tenant_id ctx"
    by (auto simp add: authorize_def split: option.splits if_splits)
  from ver have ctx: "ctx = \<lparr>user_id = cred_user tok, tenant_id = cred_tenant tok\<rparr>"
    by (auto simp add: verify_def split: if_splits)
  from domain_service_scoped [OF svc] ctx
  have "(\<forall>r \<in> set touched. record_tenant r = cred_tenant tok)
     \<and> (\<forall>r \<in> set db'. r \<in> set db \<or> record_tenant r = cred_tenant tok)"
    by simp
  with tok ver path ctx
  show "\<exists>tok. bearer req = Some tok
           \<and> verify sign now tok = Some \<lparr>user_id = cred_user tok, tenant_id = cred_tenant tok\<rparr>
           \<and> (\<forall>a. path_company req = Some a \<longrightarrow> a = cred_tenant tok)
           \<and> (\<forall>r \<in> set touched. record_tenant r = cred_tenant tok)
           \<and> (\<forall>r \<in> set db'. r \<in> set db \<or> record_tenant r = cred_tenant tok)"
    by auto
qed

theorem cross_tenant_request_rejected_witness:
  "bearer cross_tenant_request = Some beta_credential
   \<and> verify sample_sign 2000 beta_credential = Some \<lparr>user_id = ''user-beta'', tenant_id = ''beta''\<rparr>
   \<and> path_company cross_tenant_request = Some ''alpha''
   \<and> handle_request sample_sign 2000 Distinguish [''alpha'', ''beta''] [alpha_record]
        cross_tenant_request = (Inl Forbidden, 0, [alpha_record])
   \<and> handle_request sample_sign 2000 Collapse [''alpha'', ''beta''] [alpha_record]
        cross_tenant_request = (Inl NotFound, 0, [alpha_record])
   \<and> handle_request sample_sign 2000 Distinguish [''alpha'', ''beta''] [alpha_record]
        (cross_tenant_request\<lparr>path_company := Some ''beta''\<rparr>) = (Inr [], 1, [alpha_record])"
proof -
  have b: "bearer cross_tenant_request = Some beta_credential"
    and p: "path_company cross_tenant_request = Some ''alpha''"
    by (simp_all add: cross_tenant_request_def)
  have v: "verify sample_sign 2000 beta_credential
             = Some \<lparr>user_id = ''user-beta'', tenant_id = ''beta''\<rparr>"
    by (simp add: verify_def beta_credential_def issue_def sample_sign_def)
  have d: "handle_request sample_sign 2000 Distinguish [''alpha'', ''beta''] [alpha_record]
        cross_tenant_request = (Inl Forbidden, 0, [alpha_record])"
    using cross_tenant_request_rejected
            [of cross_tenant_request beta_credential sample_sign 2000
                "\<lparr>user_id = ''user-beta'', tenant_id = ''beta''\<rparr>" "''alpha''"
                Distinguish "[''alpha'', ''beta'']" "[alpha_record]"] b p v
    by simp
  have c: "handle_request sample_sign 2000 Collapse [''alpha'', ''beta''] [alpha_record]
        cross_tenant_request = (Inl NotFound, 0, [alpha_record])"
    using cross_tenant_request_rejected
            [of cross_tenant_request beta_credential sample_sign 2000
                "\<lparr>user_id = ''user-beta'', tenant_id = ''beta''\<rparr>" "''alpha''"
                Collapse "[''alpha'', ''beta'']" "[alpha_record]"] b p v
    by simp
  have own: "handle_request sample_sign 2000 Distinguish [''alpha'', ''beta''] [alpha_record]
        (cross_tenant_request\<lparr>path_company := Some ''beta''\<rparr>) = (Inr [], 1, [alpha_record])"
    using v by (simp add: handle_request_def authorize_def cross_tenant_request_def
          domain_service_def alpha_record_def)
  show ?thesis using b p v d c own by simp
qed

end
